theory Spec2Isabelle
  imports Main "HOL-Library.Word"
begin

section \<open>Python values and the CPython calls of type\_decoder.c\<close>

text \<open>
  The payload a decoder hands to \<open>put\<close> is a Python object. The converters tell apart
  integers, floats, strings, bytes, lists and tuples. A Python integer is unbounded, a float
  is carried as the 64 bits of its C double, a string as its code points, bytes as octets.
\<close>

datatype pyobj =
    PyNone
  | PyLong int
  | PyFloat "64 word"
  | PyUnicode "nat list"
  | PyBytes "8 word list"
  | PyList "pyobj list"
  | PyTuple "pyobj list"

datatype pyexc = TypeError | OverflowError | SystemError | IndexError

datatype pytype = PyLong_Type | PyFloat_Type | PyUnicode_Type | PyBytes_Type | PyOther_Type

datatype gvariant = Variant_int64 "64 word" | Variant_double "64 word"

datatype gvariant_type = G_VARIANT_TYPE_INT64 | G_VARIANT_TYPE_DOUBLE

record srd_pd_output =
  pdo_id :: int
  output_type :: int
  proto_id :: string
  meta_type :: "gvariant_type option"
  meta_name :: "string option"
  meta_descr :: "string option"

record srd_proto_data_annotation =
  ann_class :: int
  ann_text :: "nat list list"

record srd_proto_data_binary =
  bin_class :: int
  size :: nat
  data :: "8 word list"

record srd_proto_data_packet =
  pkt_ann_class :: int
  packet_output_type :: int
  packet_num :: int
  field_name :: "nat list option"
  field_value :: "nat list option"

datatype pd_data =
    Data_null
  | Data_annotation srd_proto_data_annotation
  | Data_python pyobj
  | Data_binary srd_proto_data_binary
  | Data_meta gvariant
  | Data_packet srd_proto_data_packet

record srd_proto_data =
  start_sample :: "64 word"
  end_sample :: "64 word"
  pdo :: srd_pd_output
  pdata :: pd_data

text \<open>
  What a call leaves behind besides its return value: a line of the error log
  (\<open>srd_err\<close>), a Python exception put into the interpreter's error indicator, the
  \<open>decode\<close> call on a stacked instance, the exception of such a call caught and logged
  (\<open>srd_exception_catch\<close>), and the call of a frontend callback.
\<close>

datatype effect =
    Srd_err
  | PyErr pyexc
  | Decode string "64 word" "64 word" pyobj
  | Exception_catch string
  | Callback nat srd_proto_data

text \<open>
  A converter returns \<open>SRD_OK\<close> with the converted body or \<open>SRD_ERR_PYTHON\<close>; where the C
  code reads through a null pointer the model says \<open>Segfault\<close>. Memory allocation is taken
  to succeed, so \<open>SRD_ERR_MALLOC\<close> has no branch.
\<close>

datatype 'a outcome = Segfault | SRD_ERR_PYTHON | SRD_OK 'a

record srd_decoder =
  name :: string
  annotations :: "string list"
  binary :: "string list"

subsection \<open>CPython\<close>

fun PyList_Check :: "pyobj \<Rightarrow> bool" where
  "PyList_Check (PyList xs) = True"
| "PyList_Check _ = False"

fun PyTuple_Check :: "pyobj \<Rightarrow> bool" where
  "PyTuple_Check (PyTuple xs) = True"
| "PyTuple_Check _ = False"

fun PyLong_Check :: "pyobj \<Rightarrow> bool" where
  "PyLong_Check (PyLong n) = True"
| "PyLong_Check _ = False"

fun PyFloat_Check :: "pyobj \<Rightarrow> bool" where
  "PyFloat_Check (PyFloat d) = True"
| "PyFloat_Check _ = False"

fun PyUnicode_Check :: "pyobj \<Rightarrow> bool" where
  "PyUnicode_Check (PyUnicode s) = True"
| "PyUnicode_Check _ = False"

fun PyBytes_Check :: "pyobj \<Rightarrow> bool" where
  "PyBytes_Check (PyBytes b) = True"
| "PyBytes_Check _ = False"

text \<open>\<open>PyList_Size\<close> of an object that is no list raises SystemError and returns -1.\<close>

fun PyList_Size :: "pyobj \<Rightarrow> effect list \<times> int" where
  "PyList_Size (PyList xs) = ([], int (length xs))"
| "PyList_Size _ = ([PyErr SystemError], -1)"

fun PyTuple_Size :: "pyobj \<Rightarrow> effect list \<times> int" where
  "PyTuple_Size (PyTuple xs) = ([], int (length xs))"
| "PyTuple_Size _ = ([PyErr SystemError], -1)"

text \<open>\<open>PyList_GetItem\<close> returns NULL (here \<open>None\<close>) and raises IndexError out of range.\<close>

fun PyList_GetItem :: "pyobj \<Rightarrow> nat \<Rightarrow> effect list \<times> pyobj option" where
  "PyList_GetItem (PyList xs) i =
     (if i < length xs then ([], Some (xs ! i)) else ([PyErr IndexError], None))"
| "PyList_GetItem _ i = ([PyErr SystemError], None)"

fun PyTuple_GetItem :: "pyobj \<Rightarrow> nat \<Rightarrow> effect list \<times> pyobj option" where
  "PyTuple_GetItem (PyTuple xs) i =
     (if i < length xs then ([], Some (xs ! i)) else ([PyErr IndexError], None))"
| "PyTuple_GetItem _ i = ([PyErr SystemError], None)"

text \<open>
  \<open>PyLong_AsLong\<close> and \<open>PyLong_AsLongLong\<close> on a 64-bit \<open>long\<close>: a value outside the
  range raises OverflowError and gives -1. The callers pass objects that passed
  \<open>PyLong_Check\<close>.
\<close>

fun PyLong_AsLong :: "pyobj \<Rightarrow> effect list \<times> int" where
  "PyLong_AsLong (PyLong n) =
     (if - (2 ^ 63) \<le> n \<and> n < 2 ^ 63 then ([], n) else ([PyErr OverflowError], -1))"
| "PyLong_AsLong _ = ([PyErr TypeError], -1)"

text \<open>Storing a \<open>long\<close> in an \<open>int\<close> keeps the low 32 bits, read as two's complement.\<close>

definition c_int :: "int \<Rightarrow> int" where
  "c_int v = (v + 2 ^ 31) mod 2 ^ 32 - 2 ^ 31"

text \<open>An \<open>int\<close> passed where GLib takes a \<open>guint\<close>.\<close>

definition guint_of_int :: "int \<Rightarrow> nat" where
  "guint_of_int i = nat (i mod 2 ^ 32)"

definition g_slist_nth :: "'a list \<Rightarrow> nat \<Rightarrow> 'a option" where
  "g_slist_nth xs n = (if n < length xs then Some (xs ! n) else None)"

definition g_slist_nth_data :: "'a list \<Rightarrow> nat \<Rightarrow> 'a option" where
  "g_slist_nth_data xs n = g_slist_nth xs n"

text \<open>
  \<open>PyUnicode_AsASCIIString\<close> gives NULL for a string with a code point above 127;
  \<open>g_strdup\<close> of the bytes copies up to the first NUL.
\<close>

definition PyUnicode_AsASCIIString :: "nat list \<Rightarrow> nat list option" where
  "PyUnicode_AsASCIIString s = (if list_all (\<lambda>c. c < 128) s then Some s else None)"

definition g_strdup :: "nat list \<Rightarrow> nat list" where
  "g_strdup s = takeWhile (\<lambda>c. c \<noteq> 0) s"

text \<open>
  Modelled from the spec: \<open>py_strseq_to_char\<close> is defined outside type\_decoder.c. The spec
  has it accept a sequence of strings and fail on any member that is not a string; the
  strings are delivered as they are.
\<close>

fun py_str :: "pyobj \<Rightarrow> nat list option" where
  "py_str (PyUnicode s) = Some s"
| "py_str _ = None"

fun py_strseq_to_char :: "pyobj list \<Rightarrow> nat list list option" where
  "py_strseq_to_char [] = Some []"
| "py_strseq_to_char (x # xs) =
     (case py_str x of
        None \<Rightarrow> None
      | Some s \<Rightarrow> (case py_strseq_to_char xs of None \<Rightarrow> None | Some ss \<Rightarrow> Some (s # ss)))"

section \<open>The converters\<close>

record srd_decoder_inst =
  decoder :: srd_decoder
  inst_id :: string
  pd_output :: "srd_pd_output list"
  next_di :: "string list"
  sess :: "(int \<times> nat) list"

definition fail :: "effect list \<Rightarrow> effect list \<times> 'a outcome" where
  "fail es = (es @ [Srd_err], SRD_ERR_PYTHON)"

definition convert_annotation ::
  "srd_decoder_inst \<Rightarrow> pyobj \<Rightarrow> effect list \<times> srd_proto_data_annotation outcome" where
  "convert_annotation di obj =
     (if \<not> PyList_Check obj \<and> \<not> PyTuple_Check obj then fail []
      else if snd (PyList_Size obj) \<noteq> 2
      then fail (fst (PyList_Size obj) @ fst (PyList_Size obj))
      else
        (case PyList_GetItem obj 0 of
           (e0, None) \<Rightarrow> (e0, Segfault)
         | (e0, Some py_tmp) \<Rightarrow>
             if \<not> PyLong_Check py_tmp then fail e0
             else
               (let (e1, l) = PyLong_AsLong py_tmp; cls = c_int l in
                case g_slist_nth_data (annotations (decoder di)) (guint_of_int cls) of
                  None \<Rightarrow> fail (e0 @ e1)
                | Some _ \<Rightarrow>
                    (case PyList_GetItem obj 1 of
                       (e2, None) \<Rightarrow> (e0 @ e1 @ e2, Segfault)
                     | (e2, Some (PyList txt)) \<Rightarrow>
                         (case py_strseq_to_char txt of
                            None \<Rightarrow> fail (e0 @ e1 @ e2)
                          | Some ss \<Rightarrow>
                              (e0 @ e1 @ e2, SRD_OK \<lparr>ann_class = cls, ann_text = ss\<rparr>))
                     | (e2, Some _) \<Rightarrow> fail (e0 @ e1 @ e2)))))"

text \<open>
  In \<open>convert_binary\<close> the message for a tuple of the wrong length prints
  \<open>PyList_Size(obj)\<close>, a call on a tuple. \<open>PyBytes_AsStringAndSize\<close> cannot fail on an
  object that passed \<open>PyBytes_Check\<close> when the size is asked for.
\<close>

definition convert_binary ::
  "srd_decoder_inst \<Rightarrow> pyobj \<Rightarrow> effect list \<times> srd_proto_data_binary outcome" where
  "convert_binary di obj =
     (if \<not> PyTuple_Check obj then fail []
      else if snd (PyTuple_Size obj) \<noteq> 2
      then fail (fst (PyTuple_Size obj) @ fst (PyList_Size obj))
      else
        (case PyTuple_GetItem obj 0 of
           (e0, None) \<Rightarrow> (e0, Segfault)
         | (e0, Some py_tmp) \<Rightarrow>
             if \<not> PyLong_Check py_tmp then fail e0
             else
               (let (e1, l) = PyLong_AsLong py_tmp; cls = c_int l in
                case g_slist_nth_data (binary (decoder di)) (guint_of_int cls) of
                  None \<Rightarrow> fail (e0 @ e1)
                | Some _ \<Rightarrow>
                    (case PyTuple_GetItem obj 1 of
                       (e2, None) \<Rightarrow> (e0 @ e1 @ e2, Segfault)
                     | (e2, Some (PyBytes buf)) \<Rightarrow>
                         if length buf = 0 then fail (e0 @ e1 @ e2)
                         else (e0 @ e1 @ e2,
                               SRD_OK \<lparr>bin_class = cls, size = length buf, data = buf\<rparr>)
                     | (e2, Some _) \<Rightarrow> fail (e0 @ e1 @ e2)))))"

text \<open>
  \<open>convert_meta\<close> writes no log line: it raises TypeError itself, and an integer outside
  64 bits leaves the OverflowError of \<open>PyLong_AsLongLong\<close>. A stream whose meta type is
  neither of the two returns \<open>SRD_OK\<close> with the body left as it was (null).
\<close>

fun PyFloat_AsDouble :: "pyobj \<Rightarrow> effect list \<times> 64 word" where
  "PyFloat_AsDouble (PyFloat d) = ([], d)"
| "PyFloat_AsDouble _ = ([PyErr TypeError], -1)"

definition convert_meta :: "srd_pd_output \<Rightarrow> pyobj \<Rightarrow> effect list \<times> pd_data outcome" where
  "convert_meta p obj =
     (if meta_type p = Some G_VARIANT_TYPE_INT64 then
        (if \<not> PyLong_Check obj then ([PyErr TypeError], SRD_ERR_PYTHON)
         else
           (let (e, intvalue) = PyLong_AsLong obj in
            if e \<noteq> [] then (e, SRD_ERR_PYTHON)
            else ([], SRD_OK (Data_meta (Variant_int64 (word_of_int intvalue))))))
      else if meta_type p = Some G_VARIANT_TYPE_DOUBLE then
        (if \<not> PyFloat_Check obj then ([PyErr TypeError], SRD_ERR_PYTHON)
         else
           (let (e, dvalue) = PyFloat_AsDouble obj in
            if e \<noteq> [] then (e, SRD_ERR_PYTHON)
            else ([], SRD_OK (Data_meta (Variant_double dvalue)))))
      else ([], SRD_OK Data_null))"

text \<open>
  Modelled from the spec: \<open>SRD_PACKET_LOCATION\<close> and \<open>SRD_PACKET_FIELD\<close> are
  enumerators declared in the library's header, outside type\_decoder.c. The spec lists the
  packet subtypes as Location, Field, in that order.
\<close>

definition SRD_PACKET_LOCATION :: int where
  "SRD_PACKET_LOCATION = 0"

definition SRD_PACKET_FIELD :: int where
  "SRD_PACKET_FIELD = 1"

text \<open>
  \<open>PyLong_Check\<close> and \<open>PyUnicode_Check\<close> read the object's type, so on the NULL that
  \<open>PyList_GetItem\<close> returns out of range they fault; so does \<open>PyBytes_AsString\<close> on the
  NULL that \<open>PyUnicode_AsASCIIString\<close> returns for a string that is not ASCII (the
  exception this call raises is not recorded: the fault follows at once).
\<close>

definition packet_string :: "pyobj \<Rightarrow> nat list outcome" where
  "packet_string py_tmp =
     (case py_tmp of
        PyUnicode s \<Rightarrow>
          (case PyUnicode_AsASCIIString s of
             None \<Rightarrow> Segfault
           | Some b \<Rightarrow> SRD_OK (g_strdup b))
      | _ \<Rightarrow> SRD_ERR_PYTHON)"

definition convert_packet_location ::
  "pyobj \<Rightarrow> int \<Rightarrow> int \<Rightarrow> effect list \<Rightarrow> effect list \<times> srd_proto_data_packet outcome" where
  "convert_packet_location obj cls ty es =
     (if snd (PyList_Size obj) \<noteq> 3 then fail es
      else
        (case PyList_GetItem obj 2 of
           (e2, None) \<Rightarrow> (es @ e2, Segfault)
         | (e2, Some py_tmp) \<Rightarrow>
             if \<not> PyLong_Check py_tmp then fail (es @ e2)
             else
               (let (e3, l) = PyLong_AsLong py_tmp in
                (es @ e2 @ e3,
                 SRD_OK \<lparr>pkt_ann_class = cls, packet_output_type = ty, packet_num = c_int l,
                         field_name = None, field_value = None\<rparr>))))"

definition convert_packet_field ::
  "pyobj \<Rightarrow> int \<Rightarrow> int \<Rightarrow> effect list \<Rightarrow> effect list \<times> srd_proto_data_packet outcome" where
  "convert_packet_field obj cls ty es =
     (if snd (PyList_Size obj) \<noteq> 5 then fail es
      else
        (case PyList_GetItem obj 2 of
           (e2, None) \<Rightarrow> (es @ e2, Segfault)
         | (e2, Some py_tmp) \<Rightarrow>
             if \<not> PyLong_Check py_tmp then fail (es @ e2)
             else
               (let (e3, l) = PyLong_AsLong py_tmp in
                case PyList_GetItem obj 3 of
                  (e4, None) \<Rightarrow> (es @ e2 @ e3 @ e4, Segfault)
                | (e4, Some py_name) \<Rightarrow>
                    (case packet_string py_name of
                       Segfault \<Rightarrow> (es @ e2 @ e3 @ e4, Segfault)
                     | SRD_ERR_PYTHON \<Rightarrow> fail (es @ e2 @ e3 @ e4)
                     | SRD_OK fname \<Rightarrow>
                         (case PyList_GetItem obj 4 of
                            (e5, None) \<Rightarrow> (es @ e2 @ e3 @ e4 @ e5, Segfault)
                          | (e5, Some py_value) \<Rightarrow>
                              (case packet_string py_value of
                                 Segfault \<Rightarrow> (es @ e2 @ e3 @ e4 @ e5, Segfault)
                               | SRD_ERR_PYTHON \<Rightarrow> fail (es @ e2 @ e3 @ e4 @ e5)
                               | SRD_OK fvalue \<Rightarrow>
                                   (es @ e2 @ e3 @ e4 @ e5,
                                    SRD_OK \<lparr>pkt_ann_class = cls, packet_output_type = ty,
                                            packet_num = c_int l, field_name = Some fname,
                                            field_value = Some fvalue\<rparr>)))))))"

definition convert_packet ::
  "srd_decoder_inst \<Rightarrow> pyobj \<Rightarrow> effect list \<times> srd_proto_data_packet outcome" where
  "convert_packet di obj =
     (if \<not> PyList_Check obj then fail []
      else
        (case PyList_GetItem obj 0 of
           (e0, None) \<Rightarrow> (e0, Segfault)
         | (e0, Some py_tmp) \<Rightarrow>
             if \<not> PyLong_Check py_tmp then fail e0
             else
               (let (e1, l) = PyLong_AsLong py_tmp; cls = c_int l in
                case g_slist_nth_data (annotations (decoder di)) (guint_of_int cls) of
                  None \<Rightarrow> fail (e0 @ e1)
                | Some _ \<Rightarrow>
                    (case PyList_GetItem obj 1 of
                       (e2, None) \<Rightarrow> (e0 @ e1 @ e2, Segfault)
                     | (e2, Some py_ty) \<Rightarrow>
                         if \<not> PyLong_Check py_ty then fail (e0 @ e1 @ e2)
                         else
                           (let (e3, t) = PyLong_AsLong py_ty; ty = c_int t in
                            if ty = SRD_PACKET_LOCATION
                            then convert_packet_location obj cls ty (e0 @ e1 @ e2 @ e3)
                            else if ty = SRD_PACKET_FIELD
                            then convert_packet_field obj cls ty (e0 @ e1 @ e2 @ e3)
                            else fail (e0 @ e1 @ e2 @ e3))))))"

section \<open>The dispatcher: \<open>Decoder_put\<close>\<close>

text \<open>
  The output types index the table \<open>OUTPUT_TYPES\<close> of the source, which fixes their
  values.
\<close>

definition SRD_OUTPUT_ANN :: int where "SRD_OUTPUT_ANN = 0"
definition SRD_OUTPUT_PYTHON :: int where "SRD_OUTPUT_PYTHON = 1"
definition SRD_OUTPUT_BINARY :: int where "SRD_OUTPUT_BINARY = 2"
definition SRD_OUTPUT_META :: int where "SRD_OUTPUT_META = 3"
definition SRD_OUTPUT_PACKET :: int where "SRD_OUTPUT_PACKET = 4"

text \<open>
  Modelled from the spec: \<open>srd_pd_output_callback_find\<close> is defined outside
  type\_decoder.c. The spec has the session map an output kind to at most one registered
  sink; the session is the list of registrations, a sink is named by a number.
\<close>

definition srd_pd_output_callback_find :: "(int \<times> nat) list \<Rightarrow> int \<Rightarrow> nat option" where
  "srd_pd_output_callback_find s ty = map_of s ty"

text \<open>The format \<open>i\<close> of \<open>PyArg_ParseTuple\<close> refuses an integer that is no C \<open>int\<close>.\<close>

definition is_c_int :: "int \<Rightarrow> bool" where
  "is_c_int n = (- (2 ^ 31) \<le> n \<and> n < 2 ^ 31)"

datatype py_return = Py_NULL | Py_None | Py_Int int | Crashed

text \<open>
  The loop over \<open>di->next_di\<close>: \<open>decode\<close> is called on each stacked instance in list
  order; \<open>raises\<close> tells which of these calls end in a Python exception, which is caught.
\<close>

fun forward ::
  "(string \<Rightarrow> bool) \<Rightarrow> string list \<Rightarrow> 64 word \<Rightarrow> 64 word \<Rightarrow> pyobj \<Rightarrow> effect list" where
  "forward raises [] s e py_data = []"
| "forward raises (n # ns) s e py_data =
     Decode n s e py_data # (if raises n then [Exception_catch n] else [])
       @ forward raises ns s e py_data"

text \<open>The tail of each converting case: on \<open>SRD_OK\<close> the callback runs, otherwise not.\<close>

definition run_callback ::
  "nat \<Rightarrow> srd_proto_data \<Rightarrow> ('a \<Rightarrow> pd_data) \<Rightarrow> effect list \<times> 'a outcome
     \<Rightarrow> effect list \<times> py_return" where
  "run_callback cb pd wrap r =
     (case r of
        (es, SRD_OK x) \<Rightarrow> (es @ [Callback cb (pd\<lparr>pdata := wrap x\<rparr>)], Py_None)
      | (es, SRD_ERR_PYTHON) \<Rightarrow> (es, Py_None)
      | (es, Segfault) \<Rightarrow> (es, Crashed))"

text \<open>
  \<open>Decoder_put\<close> from the point where the calling instance has been found. The trace
  lines of \<open>srd_spew\<close> and \<open>srd_dbg\<close> are not effects of the model, but the
  arguments of \<open>srd_spew\<close> are evaluated: before the switch the source reads
  \<open>OUTPUT_TYPES[pdo->output_type]\<close>, a table of five entries. For an output type outside
  0..4 this read is past the table, which is undefined; the model says \<open>Crashed\<close>, and the
  default case of the switch is never reached.
\<close>

definition Decoder_put ::
  "(string \<Rightarrow> bool) \<Rightarrow> srd_decoder_inst \<Rightarrow> 64 word \<Rightarrow> 64 word \<Rightarrow> int \<Rightarrow> pyobj
     \<Rightarrow> effect list \<times> py_return" where
  "Decoder_put raises di s e output_id py_data =
     (if \<not> is_c_int output_id then ([PyErr OverflowError], Py_NULL)
      else
        (case g_slist_nth (pd_output di) (guint_of_int output_id) of
           None \<Rightarrow> ([Srd_err], Py_NULL)
         | Some p \<Rightarrow>
             (let pd = \<lparr>start_sample = s, end_sample = e, pdo = p, pdata = Data_null\<rparr>;
                  cb = srd_pd_output_callback_find (sess di) (output_type p) in
              if output_type p < 0 \<or> 5 \<le> output_type p then ([], Crashed)
              else if output_type p = SRD_OUTPUT_ANN then
                (case cb of
                   None \<Rightarrow> ([], Py_None)
                 | Some c \<Rightarrow> run_callback c pd Data_annotation (convert_annotation di py_data))
              else if output_type p = SRD_OUTPUT_PYTHON then
                (forward raises (next_di di) s e py_data
                   @ (case cb of
                        None \<Rightarrow> []
                      | Some c \<Rightarrow> [Callback c (pd\<lparr>pdata := Data_python py_data\<rparr>)]),
                 Py_None)
              else if output_type p = SRD_OUTPUT_BINARY then
                (case cb of
                   None \<Rightarrow> ([], Py_None)
                 | Some c \<Rightarrow> run_callback c pd Data_binary (convert_binary di py_data))
              else if output_type p = SRD_OUTPUT_META then
                (case cb of
                   None \<Rightarrow> ([], Py_None)
                 | Some c \<Rightarrow> run_callback c pd (\<lambda>d. d) (convert_meta p py_data))
              else if output_type p = SRD_OUTPUT_PACKET then
                (let (es, r) =
                   (case cb of
                      None \<Rightarrow> ([], Py_None)
                    | Some c \<Rightarrow> run_callback c pd Data_packet (convert_packet di py_data))
                 in (forward raises (next_di di) s e py_data @ es, r))
              else ([Srd_err], Py_None))))"

section \<open>The registry: \<open>Decoder_register\<close>\<close>

text \<open>\<open>g_slist_length\<close> counts in a \<open>guint\<close>; the id is built with the format \<open>i\<close>.\<close>

definition g_slist_length :: "'a list \<Rightarrow> nat" where
  "g_slist_length xs = length xs mod 2 ^ 32"

definition new_output ::
  "srd_decoder_inst \<Rightarrow> int \<Rightarrow> string option \<Rightarrow> gvariant_type option
     \<Rightarrow> (string \<times> string) option \<Rightarrow> (effect list \<times> py_return) \<times> srd_decoder_inst" where
  "new_output di ty proto gv names =
     (let p = \<lparr>pdo_id = c_int (int (g_slist_length (pd_output di))),
                output_type = ty,
                proto_id = (case proto of None \<Rightarrow> inst_id di | Some x \<Rightarrow> x),
                meta_type = gv,
                meta_name = map_option fst names,
                meta_descr = map_option snd names\<rparr>
      in (([], Py_Int (pdo_id p)), di\<lparr>pd_output := pd_output di @ [p]\<rparr>))"

text \<open>
  \<open>Decoder_register\<close> from the point where the calling instance has been found. A Meta
  output registered without the \<open>meta\<close> argument leaves \<open>meta_type_py\<close> null, and the
  error message reads its type name.
\<close>

definition Decoder_register ::
  "srd_decoder_inst \<Rightarrow> int \<Rightarrow> string option \<Rightarrow> (pytype \<times> string \<times> string) option
     \<Rightarrow> (effect list \<times> py_return) \<times> srd_decoder_inst" where
  "Decoder_register di ty proto meta =
     (if \<not> is_c_int ty then (([PyErr OverflowError], Py_NULL), di)
      else if ty = SRD_OUTPUT_META then
        (case meta of
           None \<Rightarrow> (([], Crashed), di)
         | Some (meta_type_py, names) \<Rightarrow>
             if meta_type_py = PyLong_Type
             then new_output di ty proto (Some G_VARIANT_TYPE_INT64) (Some names)
             else if meta_type_py = PyFloat_Type
             then new_output di ty proto (Some G_VARIANT_TYPE_DOUBLE) (Some names)
             else (([PyErr TypeError], Py_NULL), di))
      else new_output di ty proto None None)"

section \<open>Example instances\<close>

text \<open>
  A decoder with two annotation classes and one binary class; an instance of it with one
  output of each type, two stacked instances, and a session with a callback for every
  output type but none for \<open>SRD_OUTPUT_PYTHON\<close>.
\<close>

definition example_decoder :: srd_decoder where
  "example_decoder = \<lparr>name = ''uart'', annotations = [''rx'', ''tx''], binary = [''raw'']\<rparr>"

definition example_output :: "int \<Rightarrow> int \<Rightarrow> gvariant_type option \<Rightarrow> srd_pd_output" where
  "example_output i ty gv =
     \<lparr>pdo_id = i, output_type = ty, proto_id = ''uart'', meta_type = gv,
      meta_name = None, meta_descr = None\<rparr>"

definition example_outputs :: "srd_pd_output list" where
  "example_outputs =
     [example_output 0 0 None, example_output 1 1 None, example_output 2 2 None,
      example_output 3 3 (Some G_VARIANT_TYPE_INT64), example_output 4 4 None,
      example_output 5 3 (Some G_VARIANT_TYPE_DOUBLE)]"

definition example_inst :: srd_decoder_inst where
  "example_inst =
     \<lparr>decoder = example_decoder, inst_id = ''uart-1'', pd_output = example_outputs,
      next_di = [''modbus-1'', ''midi-1''], sess = [(0, 10), (2, 12), (3, 13), (4, 14)]\<rparr>"

definition fresh_inst :: srd_decoder_inst where
  "fresh_inst = example_inst\<lparr>pd_output := []\<rparr>"

definition no_sink_inst :: srd_decoder_inst where
  "no_sink_inst = example_inst\<lparr>sess := []\<rparr>"

section \<open>Sequences of calls and kinds of effects\<close>

text \<open>
  The arguments of one \<open>register\<close> call: output type, \<open>proto_id\<close>, \<open>meta\<close>. They are
  accepted when the output type is a C \<open>int\<close> and a Meta output comes with one of the two
  supported value types. \<open>register_all\<close> makes the calls one after the other on the same
  instance and collects what they return.
\<close>

type_synonym register_args = "int \<times> string option \<times> (pytype \<times> string \<times> string) option"

fun register_args_ok :: "register_args \<Rightarrow> bool" where
  "register_args_ok (ty, proto, meta) =
     (is_c_int ty \<and>
      (ty = SRD_OUTPUT_META \<longrightarrow>
         (case meta of
            None \<Rightarrow> False
          | Some (t, names) \<Rightarrow> t = PyLong_Type \<or> t = PyFloat_Type)))"

fun register_all ::
  "srd_decoder_inst \<Rightarrow> register_args list \<Rightarrow> py_return list \<times> srd_decoder_inst" where
  "register_all di [] = ([], di)"
| "register_all di ((ty, proto, meta) # calls) =
     (let (r, di') = Decoder_register di ty proto meta;
          (rs, di'') = register_all di' calls
      in (snd r # rs, di''))"

definition example_calls :: "register_args list" where
  "example_calls =
     [(0, None, None), (3, Some ''temp'', Some (PyLong_Type, ''t'', ''temperature'')),
      (4, None, None)]"

text \<open>The kinds of effect the claims tell apart.\<close>

fun is_Decode :: "effect \<Rightarrow> bool" where
  "is_Decode (Decode n s e d) = True"
| "is_Decode _ = False"

fun is_Callback :: "effect \<Rightarrow> bool" where
  "is_Callback (Callback c pd) = True"
| "is_Callback _ = False"

fun is_diagnostic :: "effect \<Rightarrow> bool" where
  "is_diagnostic Srd_err = True"
| "is_diagnostic (PyErr x) = True"
| "is_diagnostic _ = False"

fun is_Exception_catch :: "effect \<Rightarrow> bool" where
  "is_Exception_catch (Exception_catch n) = True"
| "is_Exception_catch _ = False"

section \<open>What the spec says of the payloads\<close>

text \<open>
  The spec's sequences are Python's: a list or a tuple. \<open>claimed_annotation\<close> is the
  Annotation payload as the spec words it: a sequence of two elements, a class index within
  the decoder's annotation classes, and a sequence of strings.

  \<open>list_annotation\<close> asks for lists in both places, as the checks of the source do.
\<close>

fun sequence_items :: "pyobj \<Rightarrow> pyobj list option" where
  "sequence_items (PyList xs) = Some xs"
| "sequence_items (PyTuple xs) = Some xs"
| "sequence_items _ = None"

definition claimed_annotation :: "srd_decoder \<Rightarrow> pyobj \<Rightarrow> srd_proto_data_annotation option" where
  "claimed_annotation d obj =
     (case sequence_items obj of
        Some [PyLong n, t] \<Rightarrow>
          if 0 \<le> n \<and> n < int (length (annotations d)) then
            (case sequence_items t of
               Some ms \<Rightarrow>
                 map_option (\<lambda>ss. \<lparr>ann_class = n, ann_text = ss\<rparr>) (py_strseq_to_char ms)
             | None \<Rightarrow> None)
          else None
      | _ \<Rightarrow> None)"

definition list_annotation :: "srd_decoder \<Rightarrow> pyobj \<Rightarrow> srd_proto_data_annotation option" where
  "list_annotation d obj =
     (case obj of
        PyList [PyLong n, PyList ms] \<Rightarrow>
          if 0 \<le> n \<and> n < int (length (annotations d)) then
            map_option (\<lambda>ss. \<lparr>ann_class = n, ann_text = ss\<rparr>) (py_strseq_to_char ms)
          else None
      | _ \<Rightarrow> None)"

text \<open>
  The Annotation payloads on which \<open>convert_annotation\<close> is free of two slips of the
  source: a tuple passes the first check and is then measured with \<open>PyList_Size\<close>, and
  the class index of a two-element list is cut to a C \<open>int\<close>. In scope is every payload
  that is no tuple and, when it is a list of two elements whose element 0 is an integer, has
  a C \<open>int\<close> there.
\<close>

definition annotation_in_scope :: "pyobj \<Rightarrow> bool" where
  "annotation_in_scope obj =
     (case obj of
        PyTuple xs \<Rightarrow> False
      | PyList [PyLong n, y] \<Rightarrow> is_c_int n
      | _ \<Rightarrow> True)"

text \<open>The integers among the elements of a payload are C \<open>int\<close>s.\<close>

fun fits_c_int :: "pyobj \<Rightarrow> bool" where
  "fits_c_int (PyLong n) = is_c_int n"
| "fits_c_int _ = True"

fun int_items_fit :: "pyobj \<Rightarrow> bool" where
  "int_items_fit (PyList xs) = list_all fits_c_int xs"
| "int_items_fit (PyTuple xs) = list_all fits_c_int xs"
| "int_items_fit _ = True"

definition example_annotation :: pyobj where
  "example_annotation = PyList [PyLong 1, PyList [PyUnicode [97], PyUnicode [98]]]"

definition tuple_text_annotation :: pyobj where
  "tuple_text_annotation = PyList [PyLong 1, PyTuple [PyUnicode [97], PyUnicode [98]]]"

text \<open>
  \<open>claimed_packet\<close> is the Packet payload as the spec words it: a sequence whose element 0
  is a class index within the decoder's annotation classes and whose element 1 selects the
  subtype; Location has exactly three elements, the third an integer packet number; Field
  has exactly five, the third an integer packet number, the fourth and fifth strings.
  \<open>list_packet\<close> is the same shape on lists only, as \<open>convert_packet\<close> asks.
\<close>

definition claimed_packet :: "srd_decoder \<Rightarrow> pyobj \<Rightarrow> srd_proto_data_packet option" where
  "claimed_packet d obj =
     (case sequence_items obj of
        Some (PyLong n # PyLong t # rest) \<Rightarrow>
          if 0 \<le> n \<and> n < int (length (annotations d)) then
            (if t = SRD_PACKET_LOCATION then
               (case rest of
                  [PyLong k] \<Rightarrow>
                    Some \<lparr>pkt_ann_class = n, packet_output_type = t, packet_num = k,
                          field_name = None, field_value = None\<rparr>
                | _ \<Rightarrow> None)
             else if t = SRD_PACKET_FIELD then
               (case rest of
                  [PyLong k, PyUnicode nm, PyUnicode v] \<Rightarrow>
                    Some \<lparr>pkt_ann_class = n, packet_output_type = t, packet_num = k,
                          field_name = Some nm, field_value = Some v\<rparr>
                | _ \<Rightarrow> None)
             else None)
          else None
      | _ \<Rightarrow> None)"

definition list_packet :: "srd_decoder \<Rightarrow> pyobj \<Rightarrow> srd_proto_data_packet option" where
  "list_packet d obj =
     (case obj of PyList xs \<Rightarrow> claimed_packet d (PyList xs) | _ \<Rightarrow> None)"

text \<open>
  The Packet payloads on which \<open>convert_packet\<close> is free of the slips of the source: a
  list shorter than two elements is read past its end, class index, subtype and packet
  number are cut to a C \<open>int\<close>, a field string that is not ASCII makes
  \<open>PyBytes_AsString\<close> read NULL, and \<open>g_strdup\<close> stops at a NUL. In scope is every
  payload that is no list, and every list of at least two elements whose elements 0, 1 and
  2, where they are integers, are C \<open>int\<close>s and whose elements 3 and 4, where they are
  strings, are ASCII without NUL.
\<close>

fun ascii_text :: "pyobj \<Rightarrow> bool" where
  "ascii_text (PyUnicode s) = list_all (\<lambda>c. 0 < c \<and> c < 128) s"
| "ascii_text _ = True"

definition packet_in_scope :: "pyobj \<Rightarrow> bool" where
  "packet_in_scope obj =
     (case obj of
        PyList xs \<Rightarrow>
          2 \<le> length xs \<and> list_all fits_c_int (take 3 xs) \<and>
          list_all ascii_text (take 2 (drop 3 xs))
      | _ \<Rightarrow> True)"

definition example_field :: pyobj where
  "example_field =
     PyList [PyLong 1, PyLong 1, PyLong 7, PyUnicode [110, 97, 109, 101],
             PyUnicode [118, 97, 108]]"

definition example_field_packet :: srd_proto_data_packet where
  "example_field_packet =
     \<lparr>pkt_ann_class = 1, packet_output_type = 1, packet_num = 7,
      field_name = Some [110, 97, 109, 101], field_value = Some [118, 97, 108]\<rparr>"

definition tuple_location :: pyobj where
  "tuple_location = PyTuple [PyLong 1, PyLong 0, PyLong 7]"

text \<open>
  The integers among the elements of a payload fit a C \<open>long\<close>, so that
  \<open>PyLong_AsLong\<close> raises nothing.
\<close>

definition is_c_long :: "int \<Rightarrow> bool" where
  "is_c_long n = (- (2 ^ 63) \<le> n \<and> n < 2 ^ 63)"

fun fits_c_long :: "pyobj \<Rightarrow> bool" where
  "fits_c_long (PyLong n) = is_c_long n"
| "fits_c_long _ = True"

fun long_items_fit :: "pyobj \<Rightarrow> bool" where
  "long_items_fit (PyList xs) = list_all fits_c_long xs"
| "long_items_fit (PyTuple xs) = list_all fits_c_long xs"
| "long_items_fit _ = True"

text \<open>Payloads the converters reject: one per kind.\<close>

definition unregistered_class_annotation :: pyobj where
  "unregistered_class_annotation = PyList [PyLong 7, PyList []]"

definition empty_binary :: pyobj where
  "empty_binary = PyTuple [PyLong 0, PyBytes []]"

definition unknown_subtype_packet :: pyobj where
  "unknown_subtype_packet = PyList [PyLong 0, PyLong 5]"

section \<open>Integers at the C boundary\<close>

lemma c_int_id: "is_c_int n \<Longrightarrow> c_int n = n"
  by (simp add: is_c_int_def c_int_def)

lemma guint_of_int_nonneg: "0 \<le> n \<Longrightarrow> is_c_int n \<Longrightarrow> guint_of_int n = nat n"
  by (simp add: is_c_int_def guint_of_int_def)

lemma guint_of_int_neg: "n < 0 \<Longrightarrow> is_c_int n \<Longrightarrow> 2 ^ 31 \<le> guint_of_int n"
proof -
  assume a: "n < 0" "is_c_int n"
  then have "(n + 2 ^ 32) mod 2 ^ 32 = n + 2 ^ 32"
    by (intro mod_pos_pos_trivial) (simp_all add: is_c_int_def)
  then have "n mod 2 ^ 32 = n + 2 ^ 32"
    by simp
  with a show ?thesis
    by (simp add: guint_of_int_def is_c_int_def)
qed

lemma g_slist_nth_c_int:
  assumes "is_c_int n" "length xs \<le> 2 ^ 31"
  shows "g_slist_nth xs (guint_of_int n) =
           (if 0 \<le> n \<and> nat n < length xs then Some (xs ! nat n) else None)"
proof (cases "0 \<le> n")
  case True
  with assms show ?thesis by (simp add: guint_of_int_nonneg g_slist_nth_def)
next
  case False
  then have "2 ^ 31 \<le> guint_of_int n" using assms guint_of_int_neg by simp
  with assms False show ?thesis by (simp add: g_slist_nth_def)
qed

lemma is_c_int_outputs:
  "is_c_int SRD_OUTPUT_ANN" "is_c_int SRD_OUTPUT_PYTHON" "is_c_int SRD_OUTPUT_BINARY"
  "is_c_int SRD_OUTPUT_META" "is_c_int SRD_OUTPUT_PACKET"
  by (simp_all add: is_c_int_def SRD_OUTPUT_ANN_def SRD_OUTPUT_PYTHON_def
      SRD_OUTPUT_BINARY_def SRD_OUTPUT_META_def SRD_OUTPUT_PACKET_def)

section \<open>Registration\<close>

text \<open>
  C9. A call to \<open>register\<close> for a Meta output whose value type is neither \<open>int\<close>
  (Int64) nor \<open>float\<close> (Double) fails: it returns NULL with a TypeError raised to the
  caller, and the instance, with its list of outputs, is unchanged.
\<close>

theorem register_invalid_meta_type:
  assumes "meta_type_py \<noteq> PyLong_Type" "meta_type_py \<noteq> PyFloat_Type"
  shows "Decoder_register di SRD_OUTPUT_META proto (Some (meta_type_py, nm, descr)) =
           (([PyErr TypeError], Py_NULL), di)"
  using assms by (simp add: Decoder_register_def is_c_int_outputs)

theorem register_invalid_meta_type_witness:
  "PyUnicode_Type \<noteq> PyLong_Type \<and> PyUnicode_Type \<noteq> PyFloat_Type \<and>
   Decoder_register example_inst SRD_OUTPUT_META None (Some (PyUnicode_Type, ''n'', ''d'')) =
     (([PyErr TypeError], Py_NULL), example_inst) \<and>
   pd_output (snd (Decoder_register example_inst SRD_OUTPUT_META None
                     (Some (PyUnicode_Type, ''n'', ''d'')))) = example_outputs"
  using register_invalid_meta_type [of PyUnicode_Type example_inst None "''n''" "''d''"]
  by (simp add: example_inst_def)

lemma register_ok_step:
  assumes "register_args_ok (ty, proto, meta)" "length (pd_output di) < 2 ^ 31"
  shows "\<exists>p. Decoder_register di ty proto meta =
               (([], Py_Int (int (length (pd_output di)))), di\<lparr>pd_output := pd_output di @ [p]\<rparr>)
             \<and> pdo_id p = int (length (pd_output di)) \<and> output_type p = ty"
proof -
  have "c_int (int (g_slist_length (pd_output di))) = int (length (pd_output di))"
    using assms(2) by (simp add: g_slist_length_def c_int_id is_c_int_def)
  then show ?thesis
    using assms(1)
    by (auto simp: Decoder_register_def new_output_def Let_def split: option.splits)
qed

lemma register_all_from:
  "list_all register_args_ok calls \<Longrightarrow> length (pd_output di) + length calls \<le> 2 ^ 31 \<Longrightarrow>
   \<exists>ps. pd_output (snd (register_all di calls)) = pd_output di @ ps \<and>
        map pdo_id ps =
          map int [length (pd_output di) ..< length (pd_output di) + length calls] \<and>
        fst (register_all di calls) =
          map (\<lambda>i. Py_Int (int i))
            [length (pd_output di) ..< length (pd_output di) + length calls]"
proof (induction calls arbitrary: di)
  case Nil
  then show ?case by simp
next
  case (Cons c calls)
  obtain ty proto meta where c: "c = (ty, proto, meta)" by (cases c)
  let ?n = "length (pd_output di)"
  from Cons.prems have ok: "register_args_ok (ty, proto, meta)"
    and rest: "list_all register_args_ok calls"
    and len: "?n < 2 ^ 31" by (simp_all add: c)
  from register_ok_step [OF ok len] obtain p where
    step: "Decoder_register di ty proto meta =
             (([], Py_Int (int ?n)), di\<lparr>pd_output := pd_output di @ [p]\<rparr>)"
    and pid: "pdo_id p = int ?n" by blast
  let ?di = "di\<lparr>pd_output := pd_output di @ [p]\<rparr>"
  have len': "length (pd_output ?di) + length calls \<le> 2 ^ 31" using Cons.prems by simp
  from Cons.IH [OF rest len'] obtain ps where
    out: "pd_output (snd (register_all ?di calls)) = (pd_output di @ [p]) @ ps"
    and ids: "map pdo_id ps = map int [Suc ?n ..< Suc ?n + length calls]"
    and rs: "fst (register_all ?di calls) =
               map (\<lambda>i. Py_Int (int i)) [Suc ?n ..< Suc ?n + length calls]"
    by auto
  have upt: "[?n ..< ?n + length (c # calls)] = ?n # [Suc ?n ..< Suc ?n + length calls]"
    by (subst upt_rec) simp
  have 1: "pd_output (snd (register_all di (c # calls))) = pd_output di @ (p # ps)"
    using out by (simp add: c step split_beta)
  have 2: "map pdo_id (p # ps) = map int [?n ..< ?n + length (c # calls)]"
    using ids pid by (simp only: upt list.map)
  have 3: "fst (register_all di (c # calls)) =
             map (\<lambda>i. Py_Int (int i)) [?n ..< ?n + length (c # calls)]"
  proof -
    have "fst (register_all di (c # calls)) =
            Py_Int (int ?n) # fst (register_all ?di calls)"
      by (simp add: c step split_beta)
    then show ?thesis by (simp only: rs upt list.map)
  qed
  from 1 2 3 show ?case by blast
qed

lemma register_all_append:
  "register_all di (xs @ ys) =
     (fst (register_all di xs) @ fst (register_all (snd (register_all di xs)) ys),
      snd (register_all (snd (register_all di xs)) ys))"
  by (induction xs arbitrary: di) (auto simp: split_beta)

lemma register_all_length:
  assumes "list_all register_args_ok calls" "length (pd_output di) + length calls \<le> 2 ^ 31"
  shows "length (pd_output (snd (register_all di calls))) = length (pd_output di) + length calls"
proof -
  from register_all_from [OF assms] obtain ps where
    1: "pd_output (snd (register_all di calls)) = pd_output di @ ps"
    and 2: "map pdo_id ps = map int [length (pd_output di) ..< length (pd_output di) + length calls]"
    by blast
  have "length (map pdo_id ps) = length calls" by (simp only: 2 length_map length_upt) simp?
  then show ?thesis by (simp add: 1)
qed

lemma register_all_prefix:
  assumes "list_all register_args_ok calls" "length (pd_output di) + length calls \<le> 2 ^ 31"
  shows "take (length (pd_output di)) (pd_output (snd (register_all di calls))) = pd_output di"
proof -
  from register_all_from [OF assms] obtain ps where
    1: "pd_output (snd (register_all di calls)) = pd_output di @ ps"
    by blast
  show ?thesis by (simp add: 1)
qed

text \<open>
  C8. On a fresh instance, N successive accepted calls to \<open>register\<close> return the ids
  0 to N-1 in call order, the outputs of the instance carry these ids in list order, and the
  list after the first k calls is the first k entries of the final list: every call appends
  at the end and no entry is removed or renumbered. The ids are C \<open>int\<close>s, so N is at
  most \<open>2 ^ 31\<close>.
\<close>

theorem register_ids_dense:
  assumes "pd_output di = []" "list_all register_args_ok calls" "length calls \<le> 2 ^ 31"
  shows "fst (register_all di calls) = map (\<lambda>i. Py_Int (int i)) [0 ..< length calls] \<and>
         map pdo_id (pd_output (snd (register_all di calls))) = map int [0 ..< length calls] \<and>
         (\<forall>k \<le> length calls.
            pd_output (snd (register_all di (take k calls))) =
              take k (pd_output (snd (register_all di calls))))"
proof -
  have b0: "length (pd_output di) + length calls \<le> 2 ^ 31"
    using assms(1,3) by simp
  from register_all_from [OF assms(2) b0] obtain ps where
    1: "pd_output (snd (register_all di calls)) = pd_output di @ ps"
    and 2: "map pdo_id ps = map int [length (pd_output di) ..< length (pd_output di) + length calls]"
    and 3: "fst (register_all di calls) =
              map (\<lambda>i. Py_Int (int i)) [length (pd_output di) ..< length (pd_output di) + length calls]"
    by blast
  have a: "fst (register_all di calls) = map (\<lambda>i. Py_Int (int i)) [0 ..< length calls]"
    using 3 by (simp add: assms(1))
  have b: "map pdo_id (pd_output (snd (register_all di calls))) = map int [0 ..< length calls]"
    using 1 2 by (simp add: assms(1))
  have c: "pd_output (snd (register_all di (take k calls))) =
             take k (pd_output (snd (register_all di calls)))" if k: "k \<le> length calls" for k
  proof -
    let ?xs = "take k calls" and ?ys = "drop k calls"
    let ?d1 = "snd (register_all di ?xs)"
    have okx: "list_all register_args_ok ?xs" and oky: "list_all register_args_ok ?ys"
      using assms(2) by (auto simp: list_all_iff dest: in_set_takeD in_set_dropD)
    have lx: "length ?xs = k" using k by simp
    have ly: "length ?ys = length calls - k" by simp
    have bx: "length (pd_output di) + length ?xs \<le> 2 ^ 31"
      using assms(3) k by (simp only: assms(1) lx) simp?
    have len1: "length (pd_output ?d1) = k"
      using register_all_length [OF okx bx] by (simp only: assms(1) lx) simp?
    have by1: "length (pd_output ?d1) + length ?ys \<le> 2 ^ 31"
      using assms(3) k by (simp only: len1 ly) simp?
    have "take (length (pd_output ?d1)) (pd_output (snd (register_all ?d1 ?ys))) = pd_output ?d1"
      by (rule register_all_prefix [OF oky by1])
    moreover have "snd (register_all di (?xs @ ?ys)) = snd (register_all ?d1 ?ys)"
      by (simp only: register_all_append snd_conv)
    moreover have "?xs @ ?ys = calls" by simp
    ultimately show ?thesis by (simp only: len1)
  qed
  from a b c show ?thesis by blast
qed

theorem register_ids_dense_witness:
  "pd_output fresh_inst = [] \<and> list_all register_args_ok example_calls \<and>
   length example_calls \<le> 2 ^ 31 \<and>
   fst (register_all fresh_inst example_calls) = [Py_Int 0, Py_Int 1, Py_Int 2] \<and>
   map pdo_id (pd_output (snd (register_all fresh_inst example_calls))) = [0, 1, 2] \<and>
   pd_output (snd (register_all fresh_inst (take 2 example_calls))) =
     take 2 (pd_output (snd (register_all fresh_inst example_calls)))"
proof -
  have k: "2 \<le> length example_calls"
    by (simp add: example_calls_def)
  have h: "pd_output fresh_inst = []" "list_all register_args_ok example_calls"
    "length example_calls \<le> 2 ^ 31"
    by (simp_all add: fresh_inst_def example_calls_def is_c_int_def SRD_OUTPUT_META_def)
  have u: "[0 ..< length example_calls] = [0, 1, 2]"
    by (simp add: example_calls_def numeral_2_eq_2)
  from register_ids_dense [OF h] h k show ?thesis
    by (simp only: u list.map) simp
qed

section \<open>Dispatch\<close>

text \<open>
  C2. A call to \<open>put\<close> whose output id is not in the range of the outputs registered
  on the calling instance fails (returns NULL) and does nothing else: the only effect is the
  error log line for the invalid output id (for an id that is not even a C \<open>int\<close>, the
  OverflowError of argument parsing); no converter runs, no callback and no \<open>decode\<close> is
  called. The instance holds at most \<open>2 ^ 31\<close> outputs, as their ids are C \<open>int\<close>s.
\<close>

theorem put_unknown_stream_id:
  assumes "\<not> (0 \<le> output_id \<and> output_id < int (length (pd_output di)))"
    and "length (pd_output di) \<le> 2 ^ 31"
  shows "Decoder_put raises di s e output_id py_data =
           (if is_c_int output_id then [Srd_err] else [PyErr OverflowError], Py_NULL)"
proof (cases "is_c_int output_id")
  case True
  with assms have "g_slist_nth (pd_output di) (guint_of_int output_id) = None"
    by (auto simp: g_slist_nth_c_int)
  with True show ?thesis by (simp add: Decoder_put_def)
next
  case False
  then show ?thesis by (simp add: Decoder_put_def)
qed

theorem put_unknown_stream_id_witness:
  "\<not> (0 \<le> (-1::int) \<and> (-1::int) < int (length (pd_output example_inst))) \<and>
   length (pd_output example_inst) \<le> 2 ^ 31 \<and>
   Decoder_put (\<lambda>n. False) example_inst 0 10 (-1) (PyList []) = ([Srd_err], Py_NULL)"
  using put_unknown_stream_id [of "-1" example_inst "\<lambda>n. False" 0 10 "PyList []"]
  by (simp add: example_inst_def example_outputs_def is_c_int_def)

lemma resolve_output:
  assumes "0 \<le> output_id" "output_id < int (length (pd_output di))" "is_c_int output_id"
  shows "g_slist_nth (pd_output di) (guint_of_int output_id) =
           Some (pd_output di ! nat output_id)"
  using assms by (simp add: guint_of_int_nonneg g_slist_nth_def)

lemma forward_decodes:
  "filter is_Decode (forward raises ns s e d) = map (\<lambda>n. Decode n s e d) ns"
  by (induction ns) auto

lemma forward_quiet:
  "filter is_diagnostic (forward raises ns s e d) = []"
  "filter is_Callback (forward raises ns s e d) = []"
  by (induction ns) auto

lemmas output_defs = SRD_OUTPUT_ANN_def SRD_OUTPUT_PYTHON_def SRD_OUTPUT_BINARY_def
  SRD_OUTPUT_META_def SRD_OUTPUT_PACKET_def

text \<open>
  C10. When the session has no callback for the kind of the resolved output, \<open>put\<close> on
  an Annotation, Binary, Meta or Packet output never converts the payload: whatever the
  payload, the call returns None, its effects hold no log line, no exception and no callback,
  and for a Packet output they are exactly the forwarding to the stacked instances.
\<close>

theorem put_without_sink:
  assumes "0 \<le> output_id" "output_id < int (length (pd_output di))" "is_c_int output_id"
    and "p = pd_output di ! nat output_id"
    and "srd_pd_output_callback_find (sess di) (output_type p) = None"
    and "output_type p \<in> {SRD_OUTPUT_ANN, SRD_OUTPUT_BINARY, SRD_OUTPUT_META, SRD_OUTPUT_PACKET}"
  shows "Decoder_put raises di s e output_id py_data =
           (if output_type p = SRD_OUTPUT_PACKET then forward raises (next_di di) s e py_data
            else [], Py_None) \<and>
         filter is_diagnostic (fst (Decoder_put raises di s e output_id py_data)) = [] \<and>
         filter is_Callback (fst (Decoder_put raises di s e output_id py_data)) = []"
proof -
  have r: "g_slist_nth (pd_output di) (guint_of_int output_id) = Some p"
    using assms(1-4) by (simp add: resolve_output)
  have eq: "Decoder_put raises di s e output_id py_data =
           (if output_type p = SRD_OUTPUT_PACKET then forward raises (next_di di) s e py_data
            else [], Py_None)"
    using assms(3,5,6) by (auto simp: Decoder_put_def r Let_def output_defs)
  show ?thesis by (simp add: eq forward_quiet)
qed

theorem put_without_sink_witness:
  "0 \<le> (4::int) \<and> 4 < int (length (pd_output no_sink_inst)) \<and> is_c_int 4 \<and>
   srd_pd_output_callback_find (sess no_sink_inst) (output_type (pd_output no_sink_inst ! nat 4))
     = None \<and>
   output_type (pd_output no_sink_inst ! nat 4) = SRD_OUTPUT_PACKET \<and>
   Decoder_put (\<lambda>n. n = ''midi-1'') no_sink_inst 0 10 4 (PyList []) =
     ([Decode ''modbus-1'' 0 10 (PyList []), Decode ''midi-1'' 0 10 (PyList []),
       Exception_catch ''midi-1''], Py_None)"
proof -
  have h: "0 \<le> (4::int)" "4 < int (length (pd_output no_sink_inst))" "is_c_int 4"
    "srd_pd_output_callback_find (sess no_sink_inst)
       (output_type (pd_output no_sink_inst ! nat 4)) = None"
    "output_type (pd_output no_sink_inst ! nat 4) \<in>
       {SRD_OUTPUT_ANN, SRD_OUTPUT_BINARY, SRD_OUTPUT_META, SRD_OUTPUT_PACKET}"
    by (simp_all add: no_sink_inst_def example_inst_def example_outputs_def example_output_def
        is_c_int_def srd_pd_output_callback_find_def output_defs)
  have t: "output_type (pd_output no_sink_inst ! nat 4) = SRD_OUTPUT_PACKET"
    by (simp add: no_sink_inst_def example_inst_def example_outputs_def example_output_def
        output_defs)
  have n: "next_di no_sink_inst = [''modbus-1'', ''midi-1'']"
    by (simp add: no_sink_inst_def example_inst_def)
  from put_without_sink [OF h(1-3) refl h(4,5), of "\<lambda>n. n = ''midi-1''" 0 10 "PyList []"]
  show ?thesis using h t by (simp add: n)
qed

section \<open>Effects of the converters\<close>

lemma quiet_no_decode:
  "list_all is_diagnostic es \<Longrightarrow> filter is_Decode es = []"
  "list_all is_diagnostic es \<Longrightarrow> filter is_Callback es = []"
  by (induction es) (auto elim: is_diagnostic.elims)

lemma getitem_quiet:
  "list_all is_diagnostic (fst (PyList_GetItem obj i))"
  "list_all is_diagnostic (fst (PyTuple_GetItem obj i))"
  by (cases obj; simp)+

lemma size_quiet:
  "list_all is_diagnostic (fst (PyList_Size obj))"
  "list_all is_diagnostic (fst (PyTuple_Size obj))"
  by (cases obj; simp)+

lemma aslong_quiet: "list_all is_diagnostic (fst (PyLong_AsLong obj))"
  by (cases obj) simp_all

lemma getitem_quietD:
  "PyList_GetItem obj i = (es, r) \<Longrightarrow> list_all is_diagnostic es"
  "PyTuple_GetItem obj i = (es, r) \<Longrightarrow> list_all is_diagnostic es"
  using getitem_quiet [of obj i] by auto

lemma aslong_quietD: "PyLong_AsLong obj = (es, r) \<Longrightarrow> list_all is_diagnostic es"
  using aslong_quiet [of obj] by auto

lemma convert_annotation_quiet: "list_all is_diagnostic (fst (convert_annotation di obj))"
  by (auto simp: convert_annotation_def fail_def Let_def size_quiet
      split: prod.splits option.splits pyobj.splits
      dest: getitem_quietD aslong_quietD)

lemma convert_binary_quiet: "list_all is_diagnostic (fst (convert_binary di obj))"
  by (auto simp: convert_binary_def fail_def Let_def size_quiet
      split: prod.splits option.splits pyobj.splits
      dest: getitem_quietD aslong_quietD)

lemma convert_meta_quiet: "list_all is_diagnostic (fst (convert_meta p obj))"
  by (cases obj) (auto simp: convert_meta_def Let_def)

lemma convert_packet_location_quiet:
  "list_all is_diagnostic es \<Longrightarrow>
   list_all is_diagnostic (fst (convert_packet_location obj cls ty es))"
  by (auto simp: convert_packet_location_def fail_def Let_def
      split: prod.splits option.splits
      dest: getitem_quietD aslong_quietD)

lemma convert_packet_field_quiet:
  "list_all is_diagnostic es \<Longrightarrow>
   list_all is_diagnostic (fst (convert_packet_field obj cls ty es))"
  by (auto simp: convert_packet_field_def fail_def Let_def
      split: prod.splits option.splits outcome.splits
      dest: getitem_quietD aslong_quietD)

lemma convert_packet_quiet: "list_all is_diagnostic (fst (convert_packet di obj))"
  by (auto simp: convert_packet_def fail_def Let_def
      split: prod.splits option.splits
      intro!: convert_packet_location_quiet convert_packet_field_quiet
      dest: getitem_quietD aslong_quietD)


section \<open>Forwarding\<close>

lemma quiet_no_catch:
  "list_all is_diagnostic es \<Longrightarrow> filter is_Exception_catch es = []"
  by (induction es) (auto elim: is_diagnostic.elims)

lemma forward_catches:
  "filter is_Exception_catch (forward raises ns s e d) = map Exception_catch (filter raises ns)"
  by (induction ns) auto

lemma run_callback_no_decode:
  assumes "list_all is_diagnostic (fst r)"
  shows "filter is_Decode (fst (run_callback c pd wrap r)) = []"
    and "filter is_Exception_catch (fst (run_callback c pd wrap r)) = []"
  using assms
  by (auto simp: run_callback_def quiet_no_decode quiet_no_catch split: prod.splits outcome.splits)

text \<open>
  C1. For a call to \<open>put\<close> whose output id resolves, forwarding depends only on the
  type of the resolved output. For \<open>SRD_OUTPUT_PYTHON\<close> (Passthrough) and
  \<open>SRD_OUTPUT_PACKET\<close> the \<open>decode\<close> calls of the trace are exactly one call with
  (start sample, end sample, payload) per stacked instance, in list order, whichever of
  these calls fail; each failing call is caught. For \<open>SRD_OUTPUT_ANN\<close>,
  \<open>SRD_OUTPUT_BINARY\<close> and \<open>SRD_OUTPUT_META\<close> the trace holds no \<open>decode\<close> call.
\<close>

theorem put_forwarding:
  assumes "0 \<le> output_id" "output_id < int (length (pd_output di))" "is_c_int output_id"
    and "p = pd_output di ! nat output_id"
  shows "(output_type p = SRD_OUTPUT_PYTHON \<or> output_type p = SRD_OUTPUT_PACKET \<longrightarrow>
            filter is_Decode (fst (Decoder_put raises di s e output_id py_data)) =
              map (\<lambda>n. Decode n s e py_data) (next_di di) \<and>
            filter is_Exception_catch (fst (Decoder_put raises di s e output_id py_data)) =
              map Exception_catch (filter raises (next_di di))) \<and>
         (output_type p = SRD_OUTPUT_ANN \<or> output_type p = SRD_OUTPUT_BINARY \<or>
          output_type p = SRD_OUTPUT_META \<longrightarrow>
            filter is_Decode (fst (Decoder_put raises di s e output_id py_data)) = [])"
proof -
  have r: "g_slist_nth (pd_output di) (guint_of_int output_id) = Some p"
    using assms by (simp add: resolve_output)
  note conv = convert_annotation_quiet convert_binary_quiet convert_meta_quiet
    convert_packet_quiet
  have py: "fst (Decoder_put raises di s e output_id py_data) =
              forward raises (next_di di) s e py_data @
                (case srd_pd_output_callback_find (sess di) (output_type p) of
                   None \<Rightarrow> []
                 | Some c \<Rightarrow>
                     [Callback c (\<lparr>start_sample = s, end_sample = e, pdo = p,
                                   pdata = Data_python py_data\<rparr>)])"
    if "output_type p = SRD_OUTPUT_PYTHON"
    using that assms(3)
    by (simp add: Decoder_put_def r Let_def output_defs split: option.splits)
  have pk: "fst (Decoder_put raises di s e output_id py_data) =
              forward raises (next_di di) s e py_data @
                (case srd_pd_output_callback_find (sess di) (output_type p) of
                   None \<Rightarrow> []
                 | Some c \<Rightarrow>
                     fst (run_callback c \<lparr>start_sample = s, end_sample = e, pdo = p,
                                          pdata = Data_null\<rparr>
                            Data_packet (convert_packet di py_data)))"
    if "output_type p = SRD_OUTPUT_PACKET"
    using that assms(3)
    by (simp add: Decoder_put_def r Let_def output_defs split_beta split: option.splits)
  have other: "fst (Decoder_put raises di s e output_id py_data) =
                 (case srd_pd_output_callback_find (sess di) (output_type p) of
                    None \<Rightarrow> []
                  | Some c \<Rightarrow>
                      (let pd = \<lparr>start_sample = s, end_sample = e, pdo = p, pdata = Data_null\<rparr>
                       in if output_type p = SRD_OUTPUT_ANN
                          then fst (run_callback c pd Data_annotation
                                      (convert_annotation di py_data))
                          else if output_type p = SRD_OUTPUT_BINARY
                          then fst (run_callback c pd Data_binary (convert_binary di py_data))
                          else fst (run_callback c pd (\<lambda>d. d) (convert_meta p py_data))))"
    if "output_type p = SRD_OUTPUT_ANN \<or> output_type p = SRD_OUTPUT_BINARY \<or>
        output_type p = SRD_OUTPUT_META"
    using that assms(3)
    by (auto simp: Decoder_put_def r Let_def output_defs split: option.splits)
  have a: "filter is_Decode (fst (Decoder_put raises di s e output_id py_data)) =
             map (\<lambda>n. Decode n s e py_data) (next_di di) \<and>
           filter is_Exception_catch (fst (Decoder_put raises di s e output_id py_data)) =
             map Exception_catch (filter raises (next_di di))"
    if "output_type p = SRD_OUTPUT_PYTHON \<or> output_type p = SRD_OUTPUT_PACKET"
    using that
    by (auto simp: py pk forward_decodes forward_catches run_callback_no_decode conv
        split: option.splits)
  have b: "filter is_Decode (fst (Decoder_put raises di s e output_id py_data)) = []"
    if "output_type p = SRD_OUTPUT_ANN \<or> output_type p = SRD_OUTPUT_BINARY \<or>
        output_type p = SRD_OUTPUT_META"
    by (simp add: other [OF that] Let_def run_callback_no_decode conv split: option.splits)
  from a b show ?thesis by blast
qed

theorem put_forwarding_witness:
  "0 \<le> (1::int) \<and> 1 < int (length (pd_output example_inst)) \<and> is_c_int 1 \<and>
   output_type (pd_output example_inst ! nat 1) = SRD_OUTPUT_PYTHON \<and>
   output_type (pd_output example_inst ! nat 0) = SRD_OUTPUT_ANN \<and>
   filter is_Decode (fst (Decoder_put (\<lambda>n. n = ''modbus-1'') example_inst 3 9 1 (PyLong 5))) =
     [Decode ''modbus-1'' 3 9 (PyLong 5), Decode ''midi-1'' 3 9 (PyLong 5)] \<and>
   filter is_Exception_catch
     (fst (Decoder_put (\<lambda>n. n = ''modbus-1'') example_inst 3 9 1 (PyLong 5))) =
     [Exception_catch ''modbus-1''] \<and>
   filter is_Decode (fst (Decoder_put (\<lambda>n. n = ''modbus-1'') example_inst 3 9 0 (PyLong 5))) = []"
proof -
  have h1: "0 \<le> (1::int)" "1 < int (length (pd_output example_inst))" "is_c_int 1"
    and h0: "0 \<le> (0::int)" "0 < int (length (pd_output example_inst))" "is_c_int 0"
    by (simp_all add: example_inst_def example_outputs_def is_c_int_def)
  have t: "output_type (pd_output example_inst ! nat 1) = SRD_OUTPUT_PYTHON"
    "output_type (pd_output example_inst ! nat 0) = SRD_OUTPUT_ANN"
    by (simp_all add: example_inst_def example_outputs_def example_output_def output_defs)
  have n: "next_di example_inst = [''modbus-1'', ''midi-1'']"
    by (simp add: example_inst_def)
  from put_forwarding [OF h1 refl, of "\<lambda>n. n = ''modbus-1''" 3 9 "PyLong 5"]
    put_forwarding [OF h0 refl, of "\<lambda>n. n = ''modbus-1''" 3 9 "PyLong 5"]
  show ?thesis using h1 t by (simp add: n)
qed

section \<open>Evaluating the examples\<close>

lemmas example_defs = example_inst_def example_decoder_def example_outputs_def
  example_output_def

lemmas eval_defs = fail_def c_int_def guint_of_int_def g_slist_nth_data_def g_slist_nth_def
  is_c_int_def srd_pd_output_callback_find_def run_callback_def output_defs
  SRD_PACKET_LOCATION_def SRD_PACKET_FIELD_def

section \<open>Inputs the converters mishandle\<close>

text \<open>
  C6. A packet payload that is a list with fewer than two elements is not turned into a
  validation failure: \<open>convert_packet\<close> takes elements 0 and 1 before any length check,
  \<open>PyList_GetItem\<close> returns NULL, and \<open>PyLong_Check\<close> reads through it. With a callback
  registered for packets, \<open>put\<close> of the empty list forwards it and then faults.
\<close>

theorem packet_short_list_segfault:
  "convert_packet example_inst (PyList []) = ([PyErr IndexError], Segfault) \<and>
   convert_packet example_inst (PyList [PyLong 0]) = ([PyErr IndexError], Segfault) \<and>
   srd_pd_output_callback_find (sess example_inst) SRD_OUTPUT_PACKET = Some 14 \<and>
   Decoder_put (\<lambda>n. False) example_inst 0 10 4 (PyList []) =
     ([Decode ''modbus-1'' 0 10 (PyList []), Decode ''midi-1'' 0 10 (PyList []),
       PyErr IndexError], Crashed)"
  by (simp add: convert_packet_def Decoder_put_def example_defs eval_defs)

text \<open>
  C7. The class index of a binary payload is stored in a C \<open>int\<close>: the index
  \<open>2 ^ 32\<close> names no binary class of the decoder, yet it is cut to 0, the payload is
  accepted and the callback receives it with \<open>bin_class = 0\<close>.
\<close>

theorem binary_class_index_truncated:
  "\<not> (4294967296 < int (length (binary (decoder example_inst)))) \<and>
   convert_binary example_inst (PyTuple [PyLong 4294967296, PyBytes [1, 2]]) =
     ([], SRD_OK \<lparr>bin_class = 0, size = 2, data = [1, 2]\<rparr>) \<and>
   Decoder_put (\<lambda>n. False) example_inst 0 10 2 (PyTuple [PyLong 4294967296, PyBytes [1, 2]]) =
     ([Callback 12 \<lparr>start_sample = 0, end_sample = 10, pdo = example_output 2 2 None,
                     pdata = Data_binary \<lparr>bin_class = 0, size = 2, data = [1, 2]\<rparr>\<rparr>],
      Py_None)"
  by (simp add: convert_binary_def Decoder_put_def example_defs eval_defs)

section \<open>Annotation conversion\<close>

lemma py_strseq_to_char_Some:
  "py_strseq_to_char ms = Some ss \<longleftrightarrow> ms = map PyUnicode ss"
proof (induction ms arbitrary: ss)
  case Nil
  then show ?case by auto
next
  case (Cons x ms)
  show ?case
  proof (cases x)
    case (PyUnicode s)
    show ?thesis
    proof (cases "py_strseq_to_char ms")
      case None
      then have "ms \<noteq> map PyUnicode ts" for ts using Cons.IH [of ts] by simp
      then show ?thesis using None by (cases ss) (auto simp: PyUnicode)
    next
      case (Some ts)
      then have ms: "ms = map PyUnicode ts" using Cons.IH [of ts] by simp
      have "map PyUnicode ts = map PyUnicode us \<longleftrightarrow> ts = us" for us
        by (rule inj_map_eq_map) (simp add: inj_def)
      then show ?thesis using Some by (cases ss) (auto simp: PyUnicode ms)
    qed
  qed (auto split: option.splits)
qed

lemma class_lookup:
  assumes "is_c_int n" "length xs \<le> 2 ^ 31"
  shows "g_slist_nth_data xs (guint_of_int n) =
           (if 0 \<le> n \<and> n < int (length xs) then Some (xs ! nat n) else None)"
  using assms g_slist_nth_c_int [OF assms]
  by (auto simp: g_slist_nth_data_def)

lemma PyLong_AsLong_c_int: "is_c_int n \<Longrightarrow> PyLong_AsLong (PyLong n) = ([], n)"
  by (simp add: is_c_int_def)

lemma convert_annotation_list:
  assumes "annotation_in_scope obj" "length (annotations (decoder di)) \<le> 2 ^ 31"
  shows "convert_annotation di obj =
           (case list_annotation (decoder di) obj of
              Some a \<Rightarrow> ([], SRD_OK a)
            | None \<Rightarrow> ([Srd_err], SRD_ERR_PYTHON))"
proof (cases obj)
  case (PyList xs)
  show ?thesis
  proof (cases xs)
    case Nil
    then show ?thesis by (simp add: PyList convert_annotation_def list_annotation_def fail_def)
  next
    case (Cons x ys)
    show ?thesis
    proof (cases ys)
      case Nil
      then show ?thesis
        by (simp add: PyList Cons convert_annotation_def list_annotation_def fail_def
            split: pyobj.splits)
    next
      case c2: (Cons y zs)
      show ?thesis
      proof (cases zs)
        case Nil
        have fit: "is_c_int n" if "x = PyLong n" for n
          using assms(1) that by (simp add: annotation_in_scope_def PyList Cons c2 Nil)
        have lk: "g_slist_nth_data (annotations (decoder di)) (guint_of_int n) =
           (if 0 \<le> n \<and> n < int (length (annotations (decoder di)))
            then Some (annotations (decoder di) ! nat n) else None)" if "x = PyLong n" for n
          using fit [OF that] assms(2) by (rule class_lookup)
        show ?thesis
          using fit
          by (cases x; cases y)
            (simp_all add: PyList Cons c2 Nil convert_annotation_def list_annotation_def
              fail_def PyLong_AsLong_c_int c_int_id lk del: PyLong_AsLong.simps
              split: option.splits)
      next
        case c3: (Cons z ws)
        then show ?thesis
          by (simp add: PyList Cons c2 convert_annotation_def list_annotation_def fail_def
              split: pyobj.splits list.splits)
      qed
    qed
  qed
next
  case (PyTuple xs)
  with assms(1) show ?thesis by (simp add: annotation_in_scope_def)
qed (simp_all add: convert_annotation_def list_annotation_def fail_def)

lemma list_annotation_Some:
  "list_annotation d obj = Some a \<longleftrightarrow>
     obj = PyList [PyLong (ann_class a), PyList (map PyUnicode (ann_text a))] \<and>
     0 \<le> ann_class a \<and> ann_class a < int (length (annotations d))"
  by (auto simp: list_annotation_def py_strseq_to_char_Some
      split: pyobj.splits list.splits if_splits)

text \<open>
  C3, as the code has it. Take a payload in scope (no tuple; a class index that is a
  C \<open>int\<close>) and a decoder with at most \<open>2 ^ 31\<close> annotation classes. The Annotation
  converter succeeds exactly when the payload is a list of two elements whose element 0 is
  an integer that indexes an annotation class of the decoder and whose element 1 is a list
  of strings; the event then carries that class index and exactly these strings, and nothing
  is logged or raised. Every other payload in scope is rejected with \<open>SRD_ERR_PYTHON\<close>
  and one log line. On an Annotation output with a callback registered, \<open>put\<close> returns
  None in both cases; the callback is called once, with the converted event, on success, and
  not at all on rejection.
\<close>

theorem annotation_conversion:
  assumes "annotation_in_scope obj" "length (annotations (decoder di)) \<le> 2 ^ 31"
    and "0 \<le> output_id" "output_id < int (length (pd_output di))" "is_c_int output_id"
    and "p = pd_output di ! nat output_id" "output_type p = SRD_OUTPUT_ANN"
    and "srd_pd_output_callback_find (sess di) SRD_OUTPUT_ANN = Some c"
  shows "(list_annotation (decoder di) obj = Some a \<longleftrightarrow>
            obj = PyList [PyLong (ann_class a), PyList (map PyUnicode (ann_text a))] \<and>
            0 \<le> ann_class a \<and> ann_class a < int (length (annotations (decoder di)))) \<and>
         convert_annotation di obj =
           (case list_annotation (decoder di) obj of
              Some b \<Rightarrow> ([], SRD_OK b)
            | None \<Rightarrow> ([Srd_err], SRD_ERR_PYTHON)) \<and>
         Decoder_put raises di s e output_id obj =
           (case list_annotation (decoder di) obj of
              Some b \<Rightarrow> [Callback c \<lparr>start_sample = s, end_sample = e, pdo = p,
                                      pdata = Data_annotation b\<rparr>]
            | None \<Rightarrow> [Srd_err],
            Py_None)"
proof -
  have r: "g_slist_nth (pd_output di) (guint_of_int output_id) = Some p"
    using assms(3-6) by (simp add: resolve_output)
  have conv: "convert_annotation di obj =
           (case list_annotation (decoder di) obj of
              Some b \<Rightarrow> ([], SRD_OK b)
            | None \<Rightarrow> ([Srd_err], SRD_ERR_PYTHON))"
    using assms(1,2) by (rule convert_annotation_list)
  have "Decoder_put raises di s e output_id obj =
          run_callback c \<lparr>start_sample = s, end_sample = e, pdo = p, pdata = Data_null\<rparr>
            Data_annotation (convert_annotation di obj)"
    using assms(5,7,8) by (simp add: Decoder_put_def r Let_def output_defs)
  then have "Decoder_put raises di s e output_id obj =
           (case list_annotation (decoder di) obj of
              Some b \<Rightarrow> [Callback c \<lparr>start_sample = s, end_sample = e, pdo = p,
                                      pdata = Data_annotation b\<rparr>]
            | None \<Rightarrow> [Srd_err],
            Py_None)"
    by (simp add: conv run_callback_def split: option.splits)
  with conv list_annotation_Some [of "decoder di" obj a] show ?thesis by blast
qed

theorem annotation_conversion_witness:
  "annotation_in_scope example_annotation \<and>
   length (annotations (decoder example_inst)) \<le> 2 ^ 31 \<and>
   0 \<le> (0::int) \<and> 0 < int (length (pd_output example_inst)) \<and> is_c_int 0 \<and>
   output_type (pd_output example_inst ! nat 0) = SRD_OUTPUT_ANN \<and>
   srd_pd_output_callback_find (sess example_inst) SRD_OUTPUT_ANN = Some 10 \<and>
   list_annotation (decoder example_inst) example_annotation =
     Some \<lparr>ann_class = 1, ann_text = [[97], [98]]\<rparr> \<and>
   convert_annotation example_inst example_annotation =
     ([], SRD_OK \<lparr>ann_class = 1, ann_text = [[97], [98]]\<rparr>) \<and>
   Decoder_put (\<lambda>n. False) example_inst 0 10 0 example_annotation =
     ([Callback 10 \<lparr>start_sample = 0, end_sample = 10, pdo = example_output 0 0 None,
                     pdata = Data_annotation \<lparr>ann_class = 1, ann_text = [[97], [98]]\<rparr>\<rparr>],
      Py_None) \<and>
   annotation_in_scope unregistered_class_annotation \<and>
   list_annotation (decoder example_inst) unregistered_class_annotation = None \<and>
   Decoder_put (\<lambda>n. False) example_inst 0 10 0 unregistered_class_annotation =
     ([Srd_err], Py_None)"
proof -
  have h: "annotation_in_scope example_annotation"
    "length (annotations (decoder example_inst)) \<le> 2 ^ 31"
    "0 \<le> (0::int)" "0 < int (length (pd_output example_inst))" "is_c_int 0"
    and h': "annotation_in_scope unregistered_class_annotation"
    by (simp_all add: annotation_in_scope_def example_annotation_def
        unregistered_class_annotation_def example_defs is_c_int_def)
  have t: "output_type (pd_output example_inst ! nat 0) = SRD_OUTPUT_ANN"
    "srd_pd_output_callback_find (sess example_inst) SRD_OUTPUT_ANN = Some 10"
    by (simp_all add: example_defs eval_defs)
  have l: "list_annotation (decoder example_inst) example_annotation =
     Some \<lparr>ann_class = 1, ann_text = [[97], [98]]\<rparr>"
    "list_annotation (decoder example_inst) unregistered_class_annotation = None"
    by (simp_all add: list_annotation_def example_annotation_def
        unregistered_class_annotation_def example_defs)
  have p: "pd_output example_inst ! 0 = example_output 0 0 None"
    by (simp add: example_inst_def example_outputs_def)
  from annotation_conversion [OF h refl t, of "\<lparr>ann_class = 1, ann_text = [[97], [98]]\<rparr>"
      "\<lambda>n. False" 0 10]
    annotation_conversion [OF h' h(2-5) refl t, of "\<lparr>ann_class = 1, ann_text = [[97], [98]]\<rparr>"
      "\<lambda>n. False" 0 10]
  show ?thesis using h h' t by (simp add: l p)
qed

text \<open>
  C3 as stated fails: a payload whose element 1 is a tuple of strings is a two-element
  sequence with a valid class index and a sequence of strings, and the converter rejects it
  (the second element must be a list); the callback is not called.
\<close>

theorem annotation_tuple_text_rejected:
  "claimed_annotation (decoder example_inst) tuple_text_annotation =
     Some \<lparr>ann_class = 1, ann_text = [[97], [98]]\<rparr> \<and>
   convert_annotation example_inst tuple_text_annotation = ([Srd_err], SRD_ERR_PYTHON) \<and>
   Decoder_put (\<lambda>n. False) example_inst 0 10 0 tuple_text_annotation = ([Srd_err], Py_None)"
  by (simp add: claimed_annotation_def tuple_text_annotation_def convert_annotation_def
      Decoder_put_def example_defs eval_defs)

section \<open>Packet conversion\<close>

lemma packet_string_ascii:
  "ascii_text x \<Longrightarrow>
   packet_string x = (case x of PyUnicode s \<Rightarrow> SRD_OK s | _ \<Rightarrow> SRD_ERR_PYTHON)"
proof (cases x)
  case (PyUnicode s)
  assume "ascii_text x"
  then have a: "list_all (\<lambda>c. 0 < c \<and> c < 128) s" by (simp add: PyUnicode)
  then have "list_all (\<lambda>c. c < 128) s" by (simp add: list_all_iff)
  moreover have "takeWhile (\<lambda>c. c \<noteq> 0) s = s"
    using a by (auto simp: list_all_iff takeWhile_eq_all_conv)
  ultimately show ?thesis
    by (simp add: PyUnicode packet_string_def PyUnicode_AsASCIIString_def g_strdup_def)
qed (simp_all add: packet_string_def)

lemma convert_packet_location_list:
  assumes "list_all fits_c_int (take 1 rest)"
  shows "convert_packet_location (PyList (x # y # rest)) cls ty [] =
           (case rest of
              [PyLong k] \<Rightarrow>
                ([], SRD_OK \<lparr>pkt_ann_class = cls, packet_output_type = ty, packet_num = k,
                             field_name = None, field_value = None\<rparr>)
            | _ \<Rightarrow> ([Srd_err], SRD_ERR_PYTHON))"
proof (cases rest)
  case Nil
  then show ?thesis by (simp add: convert_packet_location_def fail_def)
next
  case (Cons z zs)
  show ?thesis
  proof (cases zs)
    case Nil
    then show ?thesis using assms
      by (cases z)
        (simp_all add: Cons convert_packet_location_def fail_def PyLong_AsLong_c_int c_int_id
          del: PyLong_AsLong.simps)
  next
    case c2: (Cons w ws)
    then show ?thesis
      by (simp add: Cons convert_packet_location_def fail_def split: pyobj.splits)
  qed
qed

lemma convert_packet_field_list:
  assumes "list_all fits_c_int (take 1 rest)" "list_all ascii_text (take 2 (drop 1 rest))"
  shows "convert_packet_field (PyList (x # y # rest)) cls ty [] =
           (case rest of
              [PyLong k, PyUnicode nm, PyUnicode v] \<Rightarrow>
                ([], SRD_OK \<lparr>pkt_ann_class = cls, packet_output_type = ty, packet_num = k,
                             field_name = Some nm, field_value = Some v\<rparr>)
            | _ \<Rightarrow> ([Srd_err], SRD_ERR_PYTHON))"
proof (cases "length rest = 3")
  case False
  then have "convert_packet_field (PyList (x # y # rest)) cls ty [] =
               ([Srd_err], SRD_ERR_PYTHON)"
    by (simp add: convert_packet_field_def fail_def)
  moreover from False have
    "(case rest of
        [PyLong k, PyUnicode nm, PyUnicode v] \<Rightarrow>
          ([], SRD_OK \<lparr>pkt_ann_class = cls, packet_output_type = ty, packet_num = k,
                       field_name = Some nm, field_value = Some v\<rparr>)
      | _ \<Rightarrow> ([Srd_err], SRD_ERR_PYTHON)) = ([Srd_err], SRD_ERR_PYTHON)"
    by (auto split: list.splits pyobj.splits)
  ultimately show ?thesis by simp
next
  case True
  then obtain a b c where rest: "rest = [a, b, c]"
    by (auto simp: length_Suc_conv numeral_3_eq_3)
  from assms have pl: "fits_c_int a" "ascii_text b" "ascii_text c"
    by (simp_all add: rest)
  show ?thesis
  proof (cases a)
    case (PyLong k)
    with pl(1) have k: "is_c_int k" by simp
    show ?thesis
      using pl(2,3)
      by (cases b; cases c)
        (simp_all add: rest PyLong convert_packet_field_def fail_def packet_string_ascii
          PyLong_AsLong_c_int [OF k] c_int_id [OF k] del: PyLong_AsLong.simps ascii_text.simps)
  qed (simp_all add: rest convert_packet_field_def fail_def)
qed

lemma convert_packet_list:
  assumes "packet_in_scope obj" "length (annotations (decoder di)) \<le> 2 ^ 31"
  shows "convert_packet di obj =
           (case list_packet (decoder di) obj of
              Some a \<Rightarrow> ([], SRD_OK a)
            | None \<Rightarrow> ([Srd_err], SRD_ERR_PYTHON))"
proof (cases obj)
  case (PyList xs)
  with assms(1) obtain x y rest where xs: "xs = x # y # rest"
    by (cases xs; cases "tl xs") (auto simp: packet_in_scope_def)
  from assms(1) have pl: "fits_c_int x" "fits_c_int y" "list_all fits_c_int (take 1 rest)"
    "list_all ascii_text (take 2 (drop 1 rest))"
    by (simp_all add: packet_in_scope_def PyList xs numeral_3_eq_3)
  show ?thesis
  proof (cases x)
    case n: (PyLong n)
    with pl(1) have cn: "is_c_int n" by simp
    note lk = class_lookup [OF cn assms(2)]
    show ?thesis
    proof (cases y)
      case t: (PyLong t)
      with pl(2) have ct: "is_c_int t" by simp
      show ?thesis
        by (simp add: PyList xs n t convert_packet_def list_packet_def claimed_packet_def
            fail_def lk PyLong_AsLong_c_int c_int_id cn ct
            convert_packet_location_list [OF pl(3)] convert_packet_field_list [OF pl(3,4)]
            SRD_PACKET_LOCATION_def SRD_PACKET_FIELD_def
            del: PyLong_AsLong.simps split: list.splits pyobj.splits)
    qed (simp_all add: PyList xs n convert_packet_def list_packet_def claimed_packet_def
        fail_def lk PyLong_AsLong_c_int c_int_id cn del: PyLong_AsLong.simps)
  qed (simp_all add: PyList xs convert_packet_def list_packet_def claimed_packet_def fail_def)
qed (simp_all add: convert_packet_def list_packet_def fail_def)

lemma list_packet_Some:
  "list_packet d obj = Some a \<longleftrightarrow>
     0 \<le> pkt_ann_class a \<and> pkt_ann_class a < int (length (annotations d)) \<and>
     (obj = PyList [PyLong (pkt_ann_class a), PyLong SRD_PACKET_LOCATION,
                    PyLong (packet_num a)] \<and>
      packet_output_type a = SRD_PACKET_LOCATION \<and>
      field_name a = None \<and> field_value a = None
      \<or>
      (\<exists>nm v. obj = PyList [PyLong (pkt_ann_class a), PyLong SRD_PACKET_FIELD,
                            PyLong (packet_num a), PyUnicode nm, PyUnicode v] \<and>
              packet_output_type a = SRD_PACKET_FIELD \<and>
              field_name a = Some nm \<and> field_value a = Some v))"
  by (cases a)
    (auto simp: list_packet_def claimed_packet_def SRD_PACKET_LOCATION_def SRD_PACKET_FIELD_def
      split: pyobj.splits list.splits if_splits)

text \<open>
  C5, as the code has it. Take a payload in scope (no list, or a list of at least two
  elements with C \<open>int\<close>s at 0, 1, 2 and ASCII strings without NUL at 3, 4) and a decoder
  with at most \<open>2 ^ 31\<close> annotation classes. The Packet converter succeeds exactly when
  the payload is a list whose element 0 is an integer indexing an annotation class and whose
  element 1 is the subtype: for Location the list has exactly three elements, the third an
  integer packet number; for Field exactly five, the third an integer packet number, the
  fourth and fifth strings. The event then carries class index, subtype, packet number and,
  for Field, name and value, and nothing is logged or raised. Every other payload in scope
  (no list, another subtype, a length that does not fit the subtype, an element of the wrong
  type, a class index out of range) is rejected with \<open>SRD_ERR_PYTHON\<close> and one log line.
  On a Packet output with a callback registered, \<open>put\<close> forwards the payload, returns
  None in both cases, and calls the callback once, with the event, on success and not at
  all on rejection.
\<close>

theorem packet_conversion:
  assumes "packet_in_scope obj" "length (annotations (decoder di)) \<le> 2 ^ 31"
    and "0 \<le> output_id" "output_id < int (length (pd_output di))" "is_c_int output_id"
    and "p = pd_output di ! nat output_id" "output_type p = SRD_OUTPUT_PACKET"
    and "srd_pd_output_callback_find (sess di) SRD_OUTPUT_PACKET = Some c"
  shows "(list_packet (decoder di) obj = Some a \<longleftrightarrow>
            0 \<le> pkt_ann_class a \<and> pkt_ann_class a < int (length (annotations (decoder di))) \<and>
            (obj = PyList [PyLong (pkt_ann_class a), PyLong SRD_PACKET_LOCATION,
                           PyLong (packet_num a)] \<and>
             packet_output_type a = SRD_PACKET_LOCATION \<and>
             field_name a = None \<and> field_value a = None
             \<or>
             (\<exists>nm v. obj = PyList [PyLong (pkt_ann_class a), PyLong SRD_PACKET_FIELD,
                                   PyLong (packet_num a), PyUnicode nm, PyUnicode v] \<and>
                     packet_output_type a = SRD_PACKET_FIELD \<and>
                     field_name a = Some nm \<and> field_value a = Some v))) \<and>
         convert_packet di obj =
           (case list_packet (decoder di) obj of
              Some b \<Rightarrow> ([], SRD_OK b)
            | None \<Rightarrow> ([Srd_err], SRD_ERR_PYTHON)) \<and>
         Decoder_put raises di s e output_id obj =
           (forward raises (next_di di) s e obj @
            (case list_packet (decoder di) obj of
               Some b \<Rightarrow> [Callback c \<lparr>start_sample = s, end_sample = e, pdo = p,
                                       pdata = Data_packet b\<rparr>]
             | None \<Rightarrow> [Srd_err]),
            Py_None)"
proof -
  have r: "g_slist_nth (pd_output di) (guint_of_int output_id) = Some p"
    using assms(3-6) by (simp add: resolve_output)
  have conv: "convert_packet di obj =
           (case list_packet (decoder di) obj of
              Some b \<Rightarrow> ([], SRD_OK b)
            | None \<Rightarrow> ([Srd_err], SRD_ERR_PYTHON))"
    using assms(1,2) by (rule convert_packet_list)
  have "Decoder_put raises di s e output_id obj =
          (forward raises (next_di di) s e obj @
           fst (run_callback c \<lparr>start_sample = s, end_sample = e, pdo = p, pdata = Data_null\<rparr>
                  Data_packet (convert_packet di obj)),
           snd (run_callback c \<lparr>start_sample = s, end_sample = e, pdo = p, pdata = Data_null\<rparr>
                  Data_packet (convert_packet di obj)))"
    using assms(5,7,8) by (simp add: Decoder_put_def r Let_def output_defs split_beta)
  then have "Decoder_put raises di s e output_id obj =
           (forward raises (next_di di) s e obj @
            (case list_packet (decoder di) obj of
               Some b \<Rightarrow> [Callback c \<lparr>start_sample = s, end_sample = e, pdo = p,
                                       pdata = Data_packet b\<rparr>]
             | None \<Rightarrow> [Srd_err]),
            Py_None)"
    by (simp add: conv run_callback_def split: option.splits)
  with conv list_packet_Some [of "decoder di" obj a] show ?thesis by blast
qed

theorem packet_conversion_witness:
  "packet_in_scope example_field \<and> length (annotations (decoder example_inst)) \<le> 2 ^ 31 \<and>
   0 \<le> (4::int) \<and> 4 < int (length (pd_output example_inst)) \<and> is_c_int 4 \<and>
   output_type (pd_output example_inst ! nat 4) = SRD_OUTPUT_PACKET \<and>
   srd_pd_output_callback_find (sess example_inst) SRD_OUTPUT_PACKET = Some 14 \<and>
   list_packet (decoder example_inst) example_field = Some example_field_packet \<and>
   convert_packet example_inst example_field = ([], SRD_OK example_field_packet) \<and>
   Decoder_put (\<lambda>n. False) example_inst 0 10 4 example_field =
     ([Decode ''modbus-1'' 0 10 example_field, Decode ''midi-1'' 0 10 example_field,
       Callback 14 \<lparr>start_sample = 0, end_sample = 10, pdo = example_output 4 4 None,
                    pdata = Data_packet example_field_packet\<rparr>], Py_None) \<and>
   packet_in_scope unknown_subtype_packet \<and>
   list_packet (decoder example_inst) unknown_subtype_packet = None \<and>
   Decoder_put (\<lambda>n. False) example_inst 0 10 4 unknown_subtype_packet =
     ([Decode ''modbus-1'' 0 10 unknown_subtype_packet,
       Decode ''midi-1'' 0 10 unknown_subtype_packet, Srd_err], Py_None)"
proof -
  have h: "packet_in_scope example_field"
    "length (annotations (decoder example_inst)) \<le> 2 ^ 31"
    "0 \<le> (4::int)" "4 < int (length (pd_output example_inst))" "is_c_int 4"
    and h': "packet_in_scope unknown_subtype_packet"
    by (simp_all add: packet_in_scope_def example_field_def unknown_subtype_packet_def
        example_defs is_c_int_def)
  have t: "output_type (pd_output example_inst ! nat 4) = SRD_OUTPUT_PACKET"
    "srd_pd_output_callback_find (sess example_inst) SRD_OUTPUT_PACKET = Some 14"
    by (simp_all add: example_defs eval_defs)
  have l: "list_packet (decoder example_inst) example_field = Some example_field_packet"
    "list_packet (decoder example_inst) unknown_subtype_packet = None"
    by (simp_all add: list_packet_def claimed_packet_def example_field_def
        example_field_packet_def unknown_subtype_packet_def example_defs eval_defs)
  have p: "pd_output example_inst ! 4 = example_output 4 4 None"
    by (simp add: example_inst_def example_outputs_def)
  have n: "next_di example_inst = [''modbus-1'', ''midi-1'']"
    by (simp add: example_inst_def)
  from packet_conversion [OF h refl t, of example_field_packet "\<lambda>n. False" 0 10]
    packet_conversion [OF h' h(2-5) refl t, of example_field_packet "\<lambda>n. False" 0 10]
  show ?thesis using h h' t by (simp add: l p n)
qed

text \<open>
  C5 as stated fails: a tuple with a valid class index, the Location subtype and an integer
  packet number has the elements the claim asks for, and the converter rejects it (the
  payload must be a list); the callback is not called.
\<close>

theorem packet_tuple_rejected:
  "claimed_packet (decoder example_inst) tuple_location =
     Some \<lparr>pkt_ann_class = 1, packet_output_type = SRD_PACKET_LOCATION, packet_num = 7,
           field_name = None, field_value = None\<rparr> \<and>
   convert_packet example_inst tuple_location = ([Srd_err], SRD_ERR_PYTHON) \<and>
   filter is_Callback (fst (Decoder_put (\<lambda>n. False) example_inst 0 10 4 tuple_location)) = []"
  by (simp add: claimed_packet_def tuple_location_def convert_packet_def
      Decoder_put_def example_defs eval_defs)

section \<open>Meta conversion and what a failed conversion leaves behind\<close>

lemma PyLong_AsLong_c_long: "is_c_long n \<Longrightarrow> PyLong_AsLong (PyLong n) = ([], n)"
  by (simp add: is_c_long_def)

lemma two_items: "length xs = 2 \<Longrightarrow> \<exists>x y. xs = [x, y]"
  by (auto simp: length_Suc_conv numeral_2_eq_2)

lemma convert_annotation_failure_effects:
  assumes "long_items_fit obj" "\<not> PyTuple_Check obj"
    and "snd (convert_annotation di obj) = SRD_ERR_PYTHON"
  shows "fst (convert_annotation di obj) = [Srd_err]"
proof (cases obj)
  case (PyList xs)
  show ?thesis
  proof (cases "length xs = 2")
    case False
    then show ?thesis by (simp add: PyList convert_annotation_def fail_def)
  next
    case True
    then obtain x y where xs: "xs = [x, y]" using two_items by blast
    show ?thesis
      using assms(1,3)
      by (cases x; cases y)
        (simp_all add: PyList xs convert_annotation_def fail_def Let_def PyLong_AsLong_c_long
          del: PyLong_AsLong.simps split: option.splits)
  qed
qed (use assms in \<open>simp_all add: convert_annotation_def fail_def\<close>)

lemma convert_binary_failure_effects:
  assumes "long_items_fit obj" "PyTuple_Check obj \<longrightarrow> snd (PyTuple_Size obj) = 2"
    and "snd (convert_binary di obj) = SRD_ERR_PYTHON"
  shows "fst (convert_binary di obj) = [Srd_err]"
proof (cases obj)
  case (PyTuple xs)
  with assms(2) have "length xs = 2" by simp
  then obtain x y where xs: "xs = [x, y]" using two_items by blast
  show ?thesis
    using assms(1,3)
    by (cases x; cases y)
      (simp_all add: PyTuple xs convert_binary_def fail_def Let_def PyLong_AsLong_c_long
        del: PyLong_AsLong.simps split: option.splits if_splits)
qed (use assms in \<open>simp_all add: convert_binary_def fail_def\<close>)

lemma convert_packet_location_failure_effects:
  assumes "list_all fits_c_long rest"
    and "snd (convert_packet_location (PyList (x # y # rest)) cls ty []) = SRD_ERR_PYTHON"
  shows "fst (convert_packet_location (PyList (x # y # rest)) cls ty []) = [Srd_err]"
proof (cases "length rest = 1")
  case False
  then show ?thesis by (simp add: convert_packet_location_def fail_def)
next
  case True
  then obtain z where rest: "rest = [z]" by (auto simp: length_Suc_conv)
  show ?thesis
    using assms
    by (cases z)
      (simp_all add: rest convert_packet_location_def fail_def Let_def PyLong_AsLong_c_long
        del: PyLong_AsLong.simps)
qed

lemma convert_packet_field_failure_effects:
  assumes "list_all fits_c_long rest"
    and "snd (convert_packet_field (PyList (x # y # rest)) cls ty []) = SRD_ERR_PYTHON"
  shows "fst (convert_packet_field (PyList (x # y # rest)) cls ty []) = [Srd_err]"
proof (cases "length rest = 3")
  case False
  then show ?thesis by (simp add: convert_packet_field_def fail_def)
next
  case True
  then obtain a b c where rest: "rest = [a, b, c]"
    by (auto simp: length_Suc_conv numeral_3_eq_3)
  show ?thesis
    using assms
    by (cases a)
      (auto simp: rest convert_packet_field_def fail_def Let_def PyLong_AsLong_c_long
        simp del: PyLong_AsLong.simps split: outcome.splits)
qed

lemma convert_packet_failure_effects:
  assumes "long_items_fit obj" "snd (convert_packet di obj) = SRD_ERR_PYTHON"
  shows "fst (convert_packet di obj) = [Srd_err]"
proof (cases obj)
  case (PyList xs)
  show ?thesis
  proof (cases xs)
    case Nil
    with assms(2) show ?thesis by (simp add: PyList convert_packet_def)
  next
    case (Cons x ys)
    show ?thesis
    proof (cases ys)
      case Nil
      with assms show ?thesis
        by (cases x)
          (simp_all add: PyList Cons convert_packet_def fail_def Let_def PyLong_AsLong_c_long
            del: PyLong_AsLong.simps split: option.splits)
    next
      case c2: (Cons y rest)
      from assms(1) have fr: "list_all fits_c_long rest" by (simp add: PyList Cons c2)
      note loc = convert_packet_location_failure_effects [OF fr]
      note fld = convert_packet_field_failure_effects [OF fr]
      show ?thesis
        using assms
        by (cases x; cases y)
          (auto simp: PyList Cons c2 convert_packet_def fail_def Let_def PyLong_AsLong_c_long
            loc fld simp del: PyLong_AsLong.simps split: option.splits if_splits)
    qed
  qed
qed (use assms in \<open>simp_all add: convert_packet_def fail_def\<close>)

lemma sint_int64: "is_c_long n \<Longrightarrow> sint (word_of_int n :: 64 word) = n"
  by (simp add: is_c_long_def sint_sbintrunc' signed_take_bit_int_eq_self)

lemma convert_meta_int64:
  assumes "meta_type p = Some G_VARIANT_TYPE_INT64"
  shows "convert_meta p (PyLong n) =
           (if is_c_long n then ([], SRD_OK (Data_meta (Variant_int64 (word_of_int n))))
            else ([PyErr OverflowError], SRD_ERR_PYTHON))"
    and "convert_meta p (PyFloat d) = ([PyErr TypeError], SRD_ERR_PYTHON)"
  using assms by (simp_all add: convert_meta_def is_c_long_def)

lemma convert_meta_double:
  assumes "meta_type p = Some G_VARIANT_TYPE_DOUBLE"
  shows "convert_meta p (PyFloat d) = ([], SRD_OK (Data_meta (Variant_double d)))"
    and "convert_meta p (PyLong n) = ([PyErr TypeError], SRD_ERR_PYTHON)"
  using assms by (simp_all add: convert_meta_def)

text \<open>
  C4, as the code has it, for \<open>put\<close> on an output with a callback registered. On a Meta
  output declared Int64, an integer payload within 64 bits is delivered as the Int64 of that
  value; an integer outside 64 bits is rejected and the OverflowError of the conversion
  stays raised; a float payload is rejected with a TypeError raised to the producer. On a
  Meta output declared Double, a float payload is delivered as that double and an integer
  payload is rejected with a TypeError. No log line is written in these cases. A failed
  Annotation, Binary or Packet conversion is logged and raises nothing, \<open>put\<close> returning
  None, when the payload's integer elements fit a C \<open>long\<close>, the Annotation payload is
  no tuple and a Binary tuple has two elements.
\<close>

theorem meta_conversion:
  assumes "0 \<le> output_id" "output_id < int (length (pd_output di))" "is_c_int output_id"
    and "p = pd_output di ! nat output_id"
    and "srd_pd_output_callback_find (sess di) (output_type p) = Some c"
    and "long_items_fit obj"
  shows "(output_type p = SRD_OUTPUT_META \<and> meta_type p = Some G_VARIANT_TYPE_INT64 \<longrightarrow>
            Decoder_put raises di s e output_id (PyLong n) =
              (if is_c_long n
               then ([Callback c \<lparr>start_sample = s, end_sample = e, pdo = p,
                                   pdata = Data_meta (Variant_int64 (word_of_int n))\<rparr>],
                     Py_None)
               else ([PyErr OverflowError], Py_None)) \<and>
            (is_c_long n \<longrightarrow> sint (word_of_int n :: 64 word) = n) \<and>
            Decoder_put raises di s e output_id (PyFloat d) = ([PyErr TypeError], Py_None)) \<and>
         (output_type p = SRD_OUTPUT_META \<and> meta_type p = Some G_VARIANT_TYPE_DOUBLE \<longrightarrow>
            Decoder_put raises di s e output_id (PyFloat d) =
              ([Callback c \<lparr>start_sample = s, end_sample = e, pdo = p,
                             pdata = Data_meta (Variant_double d)\<rparr>], Py_None) \<and>
            Decoder_put raises di s e output_id (PyLong n) = ([PyErr TypeError], Py_None)) \<and>
         (output_type p = SRD_OUTPUT_ANN \<and> \<not> PyTuple_Check obj \<and>
          snd (convert_annotation di obj) = SRD_ERR_PYTHON \<longrightarrow>
            Decoder_put raises di s e output_id obj = ([Srd_err], Py_None)) \<and>
         (output_type p = SRD_OUTPUT_BINARY \<and>
          (PyTuple_Check obj \<longrightarrow> snd (PyTuple_Size obj) = 2) \<and>
          snd (convert_binary di obj) = SRD_ERR_PYTHON \<longrightarrow>
            Decoder_put raises di s e output_id obj = ([Srd_err], Py_None)) \<and>
         (output_type p = SRD_OUTPUT_PACKET \<and>
          snd (convert_packet di obj) = SRD_ERR_PYTHON \<longrightarrow>
            Decoder_put raises di s e output_id obj =
              (forward raises (next_di di) s e obj @ [Srd_err], Py_None))"
proof -
  have r: "g_slist_nth (pd_output di) (guint_of_int output_id) = Some p"
    using assms(1-4) by (simp add: resolve_output)
  have meta: "Decoder_put raises di s e output_id x =
                run_callback c \<lparr>start_sample = s, end_sample = e, pdo = p, pdata = Data_null\<rparr>
                  (\<lambda>d. d) (convert_meta p x)"
    if "output_type p = SRD_OUTPUT_META" for x
    using that assms(3,5) by (simp add: Decoder_put_def r Let_def output_defs)
  have a: "Decoder_put raises di s e output_id (PyLong n) =
              (if is_c_long n
               then ([Callback c \<lparr>start_sample = s, end_sample = e, pdo = p,
                                   pdata = Data_meta (Variant_int64 (word_of_int n))\<rparr>],
                     Py_None)
               else ([PyErr OverflowError], Py_None)) \<and>
            (is_c_long n \<longrightarrow> sint (word_of_int n :: 64 word) = n) \<and>
            Decoder_put raises di s e output_id (PyFloat d) = ([PyErr TypeError], Py_None)"
    if "output_type p = SRD_OUTPUT_META" "meta_type p = Some G_VARIANT_TYPE_INT64"
    by (simp add: meta [OF that(1)] convert_meta_int64 [OF that(2)] run_callback_def sint_int64)
  have b: "Decoder_put raises di s e output_id (PyFloat d) =
              ([Callback c \<lparr>start_sample = s, end_sample = e, pdo = p,
                             pdata = Data_meta (Variant_double d)\<rparr>], Py_None) \<and>
            Decoder_put raises di s e output_id (PyLong n) = ([PyErr TypeError], Py_None)"
    if "output_type p = SRD_OUTPUT_META" "meta_type p = Some G_VARIANT_TYPE_DOUBLE"
    by (simp add: meta [OF that(1)] convert_meta_double [OF that(2)] run_callback_def)
  have c1: "Decoder_put raises di s e output_id obj = ([Srd_err], Py_None)"
    if "output_type p = SRD_OUTPUT_ANN" "\<not> PyTuple_Check obj"
      "snd (convert_annotation di obj) = SRD_ERR_PYTHON"
  proof -
    have "convert_annotation di obj = ([Srd_err], SRD_ERR_PYTHON)"
      using convert_annotation_failure_effects [OF assms(6) that(2,3)] that(3)
      by (simp add: prod_eq_iff)
    then show ?thesis
      using that(1) assms(3,5)
      by (simp add: Decoder_put_def r Let_def run_callback_def output_defs)
  qed
  have c2: "Decoder_put raises di s e output_id obj = ([Srd_err], Py_None)"
    if "output_type p = SRD_OUTPUT_BINARY" "PyTuple_Check obj \<longrightarrow> snd (PyTuple_Size obj) = 2"
      "snd (convert_binary di obj) = SRD_ERR_PYTHON"
  proof -
    have "convert_binary di obj = ([Srd_err], SRD_ERR_PYTHON)"
      using convert_binary_failure_effects [OF assms(6) that(2,3)] that(3)
      by (simp add: prod_eq_iff)
    then show ?thesis
      using that(1) assms(3,5)
      by (simp add: Decoder_put_def r Let_def run_callback_def output_defs)
  qed
  have c3: "Decoder_put raises di s e output_id obj =
              (forward raises (next_di di) s e obj @ [Srd_err], Py_None)"
    if "output_type p = SRD_OUTPUT_PACKET" "snd (convert_packet di obj) = SRD_ERR_PYTHON"
  proof -
    have "convert_packet di obj = ([Srd_err], SRD_ERR_PYTHON)"
      using convert_packet_failure_effects [OF assms(6) that(2)] that(2)
      by (simp add: prod_eq_iff)
    then show ?thesis
      using that(1) assms(3,5)
      by (simp add: Decoder_put_def r Let_def run_callback_def output_defs)
  qed
  from a b c1 c2 c3 show ?thesis by blast
qed

text \<open>
  C4 as stated fails: on a Meta output declared Int64 the integral payload \<open>2 ^ 63\<close> is
  not delivered; \<open>convert_meta\<close> returns on the OverflowError of \<open>PyLong_AsLongLong\<close>.
\<close>

theorem meta_int64_overflow_rejected:
  "output_type (pd_output example_inst ! 3) = SRD_OUTPUT_META \<and>
   meta_type (pd_output example_inst ! 3) = Some G_VARIANT_TYPE_INT64 \<and>
   PyLong_Check (PyLong (2 ^ 63)) \<and>
   convert_meta (pd_output example_inst ! 3) (PyLong (2 ^ 63)) =
     ([PyErr OverflowError], SRD_ERR_PYTHON) \<and>
   Decoder_put (\<lambda>n. False) example_inst 0 10 3 (PyLong (2 ^ 63)) =
     ([PyErr OverflowError], Py_None)"
  by (simp add: convert_meta_def Decoder_put_def example_defs eval_defs)

theorem meta_conversion_witness:
  "is_c_int 3 \<and> is_c_long 42 \<and>
   output_type (pd_output example_inst ! 3) = SRD_OUTPUT_META \<and>
   meta_type (pd_output example_inst ! 3) = Some G_VARIANT_TYPE_INT64 \<and>
   srd_pd_output_callback_find (sess example_inst) SRD_OUTPUT_META = Some 13 \<and>
   Decoder_put (\<lambda>n. False) example_inst 0 10 3 (PyLong 42) =
     ([Callback 13 \<lparr>start_sample = 0, end_sample = 10, pdo = pd_output example_inst ! 3,
                     pdata = Data_meta (Variant_int64 42)\<rparr>], Py_None) \<and>
   sint (42 :: 64 word) = 42 \<and>
   Decoder_put (\<lambda>n. False) example_inst 0 10 3 (PyFloat 4614253070214989087) =
     ([PyErr TypeError], Py_None) \<and>
   meta_type (pd_output example_inst ! 5) = Some G_VARIANT_TYPE_DOUBLE \<and>
   Decoder_put (\<lambda>n. False) example_inst 0 10 5 (PyFloat 4614253070214989087) =
     ([Callback 13 \<lparr>start_sample = 0, end_sample = 10, pdo = pd_output example_inst ! 5,
                     pdata = Data_meta (Variant_double 4614253070214989087)\<rparr>], Py_None) \<and>
   Decoder_put (\<lambda>n. False) example_inst 0 10 5 (PyLong 42) = ([PyErr TypeError], Py_None) \<and>
   long_items_fit unregistered_class_annotation \<and>
   snd (convert_annotation example_inst unregistered_class_annotation) = SRD_ERR_PYTHON \<and>
   Decoder_put (\<lambda>n. False) example_inst 0 10 0 unregistered_class_annotation =
     ([Srd_err], Py_None) \<and>
   long_items_fit empty_binary \<and>
   snd (convert_binary example_inst empty_binary) = SRD_ERR_PYTHON \<and>
   Decoder_put (\<lambda>n. False) example_inst 0 10 2 empty_binary = ([Srd_err], Py_None) \<and>
   long_items_fit unknown_subtype_packet \<and>
   snd (convert_packet example_inst unknown_subtype_packet) = SRD_ERR_PYTHON \<and>
   Decoder_put (\<lambda>n. False) example_inst 0 10 4 unknown_subtype_packet =
     ([Decode ''modbus-1'' 0 10 unknown_subtype_packet,
       Decode ''midi-1'' 0 10 unknown_subtype_packet, Srd_err], Py_None)"
proof -
  have len: "length (pd_output example_inst) = 6"
    by (simp add: example_defs)
  have ty: "output_type (pd_output example_inst ! 0) = SRD_OUTPUT_ANN"
    "output_type (pd_output example_inst ! 2) = SRD_OUTPUT_BINARY"
    "output_type (pd_output example_inst ! 3) = SRD_OUTPUT_META"
    "output_type (pd_output example_inst ! 4) = SRD_OUTPUT_PACKET"
    "output_type (pd_output example_inst ! 5) = SRD_OUTPUT_META"
    "meta_type (pd_output example_inst ! 3) = Some G_VARIANT_TYPE_INT64"
    "meta_type (pd_output example_inst ! 5) = Some G_VARIANT_TYPE_DOUBLE"
    by (simp_all add: example_defs output_defs)
  have cb: "srd_pd_output_callback_find (sess example_inst) SRD_OUTPUT_ANN = Some 10"
    "srd_pd_output_callback_find (sess example_inst) SRD_OUTPUT_BINARY = Some 12"
    "srd_pd_output_callback_find (sess example_inst) SRD_OUTPUT_META = Some 13"
    "srd_pd_output_callback_find (sess example_inst) SRD_OUTPUT_PACKET = Some 14"
    by (simp_all add: example_defs eval_defs)
  have fit: "long_items_fit unregistered_class_annotation" "long_items_fit empty_binary"
    "long_items_fit unknown_subtype_packet" "is_c_long 42" "is_c_int 3"
    by (simp_all add: unregistered_class_annotation_def empty_binary_def
        unknown_subtype_packet_def is_c_long_def is_c_int_def)
  have conv: "snd (convert_annotation example_inst unregistered_class_annotation) = SRD_ERR_PYTHON"
    "snd (convert_binary example_inst empty_binary) = SRD_ERR_PYTHON"
    "snd (convert_packet example_inst unknown_subtype_packet) = SRD_ERR_PYTHON"
    by (simp_all add: unregistered_class_annotation_def empty_binary_def
        unknown_subtype_packet_def convert_annotation_def convert_binary_def convert_packet_def
        example_defs eval_defs)
  have shape: "\<not> PyTuple_Check unregistered_class_annotation"
    "snd (PyTuple_Size empty_binary) = 2"
    by (simp_all add: unregistered_class_annotation_def empty_binary_def)
  have nx: "next_di example_inst = [''modbus-1'', ''midi-1'']"
    by (simp add: example_inst_def)
  have a: "Decoder_put (\<lambda>n. False) example_inst 0 10 3 (PyLong 42) =
     ([Callback 13 \<lparr>start_sample = 0, end_sample = 10, pdo = pd_output example_inst ! 3,
                     pdata = Data_meta (Variant_int64 42)\<rparr>], Py_None) \<and>
     Decoder_put (\<lambda>n. False) example_inst 0 10 3 (PyFloat 4614253070214989087) =
     ([PyErr TypeError], Py_None)"
    using meta_conversion [of 3 example_inst _ 13 PyNone "\<lambda>n. False" 0 10 42
        4614253070214989087]
    by (simp add: len ty cb fit is_c_int_def)
  have b: "Decoder_put (\<lambda>n. False) example_inst 0 10 5 (PyFloat 4614253070214989087) =
     ([Callback 13 \<lparr>start_sample = 0, end_sample = 10, pdo = pd_output example_inst ! 5,
                     pdata = Data_meta (Variant_double 4614253070214989087)\<rparr>], Py_None) \<and>
     Decoder_put (\<lambda>n. False) example_inst 0 10 5 (PyLong 42) = ([PyErr TypeError], Py_None)"
    using meta_conversion [of 5 example_inst _ 13 PyNone "\<lambda>n. False" 0 10 42
        4614253070214989087]
    by (simp add: len ty cb is_c_int_def)
  have c1: "Decoder_put (\<lambda>n. False) example_inst 0 10 0 unregistered_class_annotation =
     ([Srd_err], Py_None)"
    using meta_conversion [of 0 example_inst _ 10 unregistered_class_annotation "\<lambda>n. False" 0 10]
    by (simp add: len ty cb fit conv shape is_c_int_def)
  have c2: "Decoder_put (\<lambda>n. False) example_inst 0 10 2 empty_binary = ([Srd_err], Py_None)"
    using meta_conversion [of 2 example_inst _ 12 empty_binary "\<lambda>n. False" 0 10]
    by (simp add: len ty cb fit conv shape is_c_int_def)
  have c3: "Decoder_put (\<lambda>n. False) example_inst 0 10 4 unknown_subtype_packet =
     ([Decode ''modbus-1'' 0 10 unknown_subtype_packet,
       Decode ''midi-1'' 0 10 unknown_subtype_packet, Srd_err], Py_None)"
    using meta_conversion [of 4 example_inst _ 14 unknown_subtype_packet "\<lambda>n. False" 0 10]
    by (simp add: len ty cb fit conv nx is_c_int_def)
  have s: "sint (42 :: 64 word) = 42" by simp
  from a b c1 c2 c3 s ty cb fit conv show ?thesis by simp
qed

section \<open>Binary conversion\<close>

text \<open>
  Apart from the cut of the class index, \<open>convert_binary\<close> does what is asked of it: for
  a class index that is a C \<open>int\<close> it succeeds exactly on a tuple of a class index in
  range and a non-empty bytes object, the event carries that class and these bytes, and no
  payload makes it fault.
\<close>

lemma convert_binary_tuple:
  assumes "int_items_fit obj" "length (binary (decoder di)) \<le> 2 ^ 31"
  shows "snd (convert_binary di obj) = SRD_OK b \<longleftrightarrow>
           obj = PyTuple [PyLong (bin_class b), PyBytes (data b)] \<and>
           0 \<le> bin_class b \<and> bin_class b < int (length (binary (decoder di))) \<and>
           data b \<noteq> [] \<and> size b = length (data b)"
proof (cases obj)
  case (PyTuple xs)
  show ?thesis
  proof (cases "length xs = 2")
    case False
    then show ?thesis by (auto simp: PyTuple convert_binary_def fail_def)
  next
    case True
    then obtain x y where xs: "xs = [x, y]" using two_items by blast
    have lk: "g_slist_nth_data (binary (decoder di)) (guint_of_int n) =
           (if 0 \<le> n \<and> n < int (length (binary (decoder di)))
            then Some (binary (decoder di) ! nat n) else None)" if "x = PyLong n" for n
      using assms that by (intro class_lookup) (simp_all add: PyTuple xs)
    show ?thesis
      using assms(1)
      by (cases b; cases x; cases y)
        (auto simp: PyTuple xs convert_binary_def fail_def Let_def PyLong_AsLong_c_int
          c_int_id lk simp del: PyLong_AsLong.simps split: option.splits)
  qed
qed (auto simp: convert_binary_def fail_def)

lemma convert_binary_never_faults: "snd (convert_binary di obj) \<noteq> Segfault"
proof (cases obj)
  case (PyTuple xs)
  show ?thesis
  proof (cases "length xs = 2")
    case False
    then show ?thesis by (simp add: PyTuple convert_binary_def fail_def)
  next
    case True
    then obtain x y where xs: "xs = [x, y]" using two_items by blast
    show ?thesis
      by (cases x; cases y)
        (simp_all add: PyTuple xs convert_binary_def fail_def Let_def split_beta
          split: option.splits)
  qed
qed (simp_all add: convert_binary_def fail_def)

end
